theory Spec2Isabelle
  imports Complex_Main
begin

section \<open>Conventions of the embedding\<close>

text \<open>
  The C++ type \<open>Scalar\<close> (\<open>double\<close>) is modelled by \<^typ>\<open>real\<close>: arithmetic is exact and
  every value is finite, so rounding, overflow to infinity and NaN are outside the model
  (but for the constructors of \<open>Horizon\<close>, which are modelled on the special values too).
  \<open>std::exp\<close>, \<open>sin\<close>, \<open>cos\<close> and \<open>sqrt\<close> are the real functions of the same name and
  \<open>pow(x, 2)\<close> is \<open>x\<^sup>2\<close>. A division by zero, which yields an infinity or a NaN in C++,
  yields \<open>0\<close> in HOL; no statement below depends on the value of a quotient.

  A C++ exception is a value of the datatype \<open>exn\<close>; a function that may throw returns a
  sum, with \<open>Inl\<close> for the exception.
\<close>

datatype exn = invalid_argument string

section \<open>The horizon schedule (class \<open>Horizon\<close>)\<close>

text \<open>
  The private members \<open>Tf_\<close>, \<open>alpha_\<close>, \<open>t0_\<close> and \<open>time_varying_length_\<close>. A name may not
  end in an underscore here, so each field carries the class name in front instead.
\<close>

record Horizon =
  Horizon_Tf :: real
  Horizon_alpha :: real
  Horizon_t0 :: real
  Horizon_time_varying_length :: bool

text \<open>
  The constructor \<open>Horizon(Tf, alpha = 0.0, t0 = 0.0)\<close>: the members are initialised, then
  \<open>Tf <= 0.0\<close> throws, and otherwise the flag is set to \<open>alpha > 0.0\<close>. An exception in a
  constructor leaves no object behind, so the result is the exception alone.
\<close>

definition Horizon_Horizon :: "real \<Rightarrow> real \<Rightarrow> real \<Rightarrow> exn + Horizon" where
  "Horizon_Horizon Tf alpha t0 =
     (if Tf \<le> 0.0 then Inl (invalid_argument ''[Horizon]: 'Tf' must be positive!'')
      else Inr \<lparr>Horizon_Tf = Tf, Horizon_alpha = alpha, Horizon_t0 = t0,
                Horizon_time_varying_length = (alpha > 0.0)\<rparr>)"

text \<open>
  The defaulted constructor \<open>Horizon() = default\<close> initialises no member: the object keeps
  whatever its storage held. The argument is that storage: all zero for a
  value-initialised object (\<open>Horizon()\<close>, \<open>Horizon{}\<close>, or a member of a value-initialised
  class), indeterminate for \<open>Horizon h;\<close>.
\<close>

definition Horizon_default :: "Horizon \<Rightarrow> Horizon" where
  "Horizon_default storage = storage"

definition zero_storage :: Horizon where
  "zero_storage = \<lparr>Horizon_Tf = 0, Horizon_alpha = 0, Horizon_t0 = 0,
                    Horizon_time_varying_length = False\<rparr>"

text \<open>
  \<open>T(t)\<close>. The source has \<open>assert(t >= t0)\<close> in the time-varying branch, where no \<open>t0\<close> is in
  scope (the member is \<open>t0_\<close>): the class compiles only with \<open>NDEBUG\<close> defined, where the
  assertion expands to nothing. So \<open>T\<close> has no failing branch.
\<close>

definition Horizon_T :: "Horizon \<Rightarrow> real \<Rightarrow> real" where
  "Horizon_T h t =
     (if Horizon_time_varying_length h
      then Horizon_Tf h * (1.0 - exp (- Horizon_alpha h * (t - Horizon_t0 h)))
      else Horizon_Tf h)"

definition Horizon_reset :: "Horizon \<Rightarrow> real \<Rightarrow> Horizon" where
  "Horizon_reset h t0 = h\<lparr>Horizon_t0 := t0\<rparr>"

text \<open>
  The public operations on an existing object, for statements about every sequence of
  calls: \<open>T\<close> is a \<open>const\<close> member and returns a value, \<open>reset\<close> updates the object.
\<close>

datatype Horizon_call = call_T real | call_reset real

fun Horizon_step :: "Horizon \<Rightarrow> Horizon_call \<Rightarrow> Horizon" where
  "Horizon_step h (call_T t) = h"
| "Horizon_step h (call_reset t0) = Horizon_reset h t0"

definition Horizon_run :: "Horizon \<Rightarrow> Horizon_call list \<Rightarrow> Horizon" where
  "Horizon_run h cs = foldl Horizon_step h cs"

subsection \<open>The constructors on doubles with their special values\<close>

text \<open>
  Which objects a constructor lets through depends on what \<open>Tf <= 0.0\<close> does with a value
  that is not a number. For the constructors, \<open>reset\<close> and the member \<open>Tf_\<close> the \<open>double\<close>
  is therefore modelled with its special values as well: not-a-number, the two infinities,
  and the numbers. \<open>Scalar_le\<close> and \<open>Scalar_less\<close> are the comparisons \<open><=\<close> and \<open><\<close> of
  IEEE 754, false as soon as an operand is a NaN; \<open>a > b\<close> is \<open>b < a\<close>.
\<close>

datatype Scalar = NaN | MInf | Fin real | PInf

fun Scalar_le :: "Scalar \<Rightarrow> Scalar \<Rightarrow> bool" where
  "Scalar_le NaN b = False"
| "Scalar_le a NaN = False"
| "Scalar_le MInf b = True"
| "Scalar_le a PInf = True"
| "Scalar_le PInf b = False"
| "Scalar_le a MInf = False"
| "Scalar_le (Fin a) (Fin b) = (a \<le> b)"

fun Scalar_less :: "Scalar \<Rightarrow> Scalar \<Rightarrow> bool" where
  "Scalar_less NaN b = False"
| "Scalar_less a NaN = False"
| "Scalar_less PInf b = False"
| "Scalar_less a MInf = False"
| "Scalar_less MInf b = True"
| "Scalar_less a PInf = True"
| "Scalar_less (Fin a) (Fin b) = (a < b)"

text \<open>The object with members of type \<open>Scalar\<close>, and the three-argument constructor on it.\<close>

record Horizon_S =
  Tf_S :: Scalar
  alpha_S :: Scalar
  t0_S :: Scalar
  time_varying_length_S :: bool

definition Horizon_Horizon_S :: "Scalar \<Rightarrow> Scalar \<Rightarrow> Scalar \<Rightarrow> exn + Horizon_S" where
  "Horizon_Horizon_S Tf alpha t0 =
     (if Scalar_le Tf (Fin 0.0)
      then Inl (invalid_argument ''[Horizon]: 'Tf' must be positive!'')
      else Inr \<lparr>Tf_S = Tf, alpha_S = alpha, t0_S = t0,
                time_varying_length_S = Scalar_less (Fin 0.0) alpha\<rparr>)"

definition Horizon_default_S :: "Horizon_S \<Rightarrow> Horizon_S" where
  "Horizon_default_S storage = storage"

definition zero_storage_S :: Horizon_S where
  "zero_storage_S = \<lparr>Tf_S = Fin 0, alpha_S = Fin 0, t0_S = Fin 0,
                      time_varying_length_S = False\<rparr>"

definition Horizon_reset_S :: "Horizon_S \<Rightarrow> Scalar \<Rightarrow> Horizon_S" where
  "Horizon_reset_S h t0 = h\<lparr>t0_S := t0\<rparr>"

datatype Horizon_call_S = call_T_S Scalar | call_reset_S Scalar

fun Horizon_step_S :: "Horizon_S \<Rightarrow> Horizon_call_S \<Rightarrow> Horizon_S" where
  "Horizon_step_S h (call_T_S t) = h"
| "Horizon_step_S h (call_reset_S t0) = Horizon_reset_S h t0"

definition Horizon_run_S :: "Horizon_S \<Rightarrow> Horizon_call_S list \<Rightarrow> Horizon_S" where
  "Horizon_run_S h cs = foldl Horizon_step_S h cs"

text \<open>
  An object whose members are numbers, as an object with \<open>Scalar\<close> members: on numbers
  the two models of the constructor are one (lemma \<open>Horizon_Horizon_S_Fin\<close>).
\<close>

definition Horizon_numbers :: "Horizon \<Rightarrow> Horizon_S" where
  "Horizon_numbers h =
     \<lparr>Tf_S = Fin (Horizon_Tf h), alpha_S = Fin (Horizon_alpha h), t0_S = Fin (Horizon_t0 h),
      time_varying_length_S = Horizon_time_varying_length h\<rparr>"

section \<open>The Fischer-Burmeister function\<close>

text \<open>
  Modelled from the spec: the Fischer-Burmeister transform is part of the solver core, of
  which the sources at hand hold nothing. The spec gives
  \<open>FB(a,b;\<epsilon>) = a + b - sqrt(a\<^sup>2 + b\<^sup>2 + \<epsilon>)\<close>.
\<close>

definition FB :: "real \<Rightarrow> real \<Rightarrow> real \<Rightarrow> real" where
  "FB a b eps = a + b - sqrt (a\<^sup>2 + b\<^sup>2 + eps)"


section \<open>Memory, arrays of \<open>double\<close> and assignments\<close>

text \<open>
  The evaluators of an OCP take raw pointers \<open>const double*\<close> and \<open>double*\<close>. A pointer
  is an address, the memory maps each address to the \<open>double\<close> stored there, and \<open>p[i]\<close> is
  the cell \<open>p + i\<close>. Nothing keeps two pointers apart: an output array may overlap an input
  array, and the model shows what the code does then. An access past the end of an array is
  an access to the cells that follow it.
\<close>

type_synonym addr = nat
type_synonym memory = "addr \<Rightarrow> real"

text \<open>
  The statement \<open>out[i] = e;\<close> is the pair of the cell \<open>out + i\<close> and of \<open>e\<close> as a function
  of the memory at the moment the statement runs. \<open>exec\<close> runs a sequence of such statements
  in order, so that a later statement reads what an earlier one wrote.
\<close>

type_synonym assignment = "addr \<times> (memory \<Rightarrow> real)"

fun exec :: "assignment list \<Rightarrow> memory \<Rightarrow> memory" where
  "exec [] h = h"
| "exec ((a, e) # ss) h = exec ss (h(a := e h))"

text \<open>
  \<open>struct ExternalReference\<close> of the cartpole OCP. The objects held through
  \<open>std::shared_ptr<ExternalReference>\<close> live in a store of their own; a null pointer is
  \<open>None\<close>.
\<close>

record ExternalReference =
  cart_position :: real

text \<open>
  What a call can see and change: the OCP object it is called on, the memory of the
  \<open>double\<close> arrays, and the store of \<open>ExternalReference\<close> objects. The three are
  apart: no array of the memory overlaps the data members of the OCP object or an
  \<open>ExternalReference\<close> object.
\<close>

record 'o world =
  ocp :: 'o
  mem :: memory
  refs :: "addr \<rightharpoonup> ExternalReference"

definition zero_memory :: memory where
  "zero_memory = (\<lambda>a. 0)"

text \<open>
  The index sets of an array of \<open>n\<close> cells at \<open>p\<close>, and agreement of two memories on a set
  of cells.
\<close>

definition cells :: "addr \<Rightarrow> nat \<Rightarrow> addr set" where
  "cells p n = {p ..< p + n}"

definition agree_on :: "addr set \<Rightarrow> memory \<Rightarrow> memory \<Rightarrow> bool" where
  "agree_on A h h' \<longleftrightarrow> (\<forall>a\<in>A. h a = h' a)"

section \<open>The cartpole OCP with an external reference\<close>

definition OCP_cartpoleExternalReference_nx :: nat where
  "OCP_cartpoleExternalReference_nx = 4"

definition OCP_cartpoleExternalReference_nu :: nat where
  "OCP_cartpoleExternalReference_nu = 1"

definition OCP_cartpoleExternalReference_nc :: nat where
  "OCP_cartpoleExternalReference_nc = 0"

definition OCP_cartpoleExternalReference_nuc :: nat where
  "OCP_cartpoleExternalReference_nuc =
     OCP_cartpoleExternalReference_nu + OCP_cartpoleExternalReference_nc"

text \<open>
  The data members. A \<open>std::array<double, n>\<close> is a list; \<open>ubound_indices\<close> is
  \<open>static constexpr\<close> and so not a field of the object.
\<close>

definition OCP_cartpoleExternalReference_ubound_indices :: "nat list" where
  "OCP_cartpoleExternalReference_ubound_indices = [0]"

record OCP_cartpoleExternalReference =
  m_c :: real
  m_p :: real
  l :: real
  g :: real
  q :: "real list"
  q_terminal :: "real list"
  x_ref :: "real list"
  r :: "real list"
  umin :: "real list"
  umax :: "real list"
  dummy_weight :: "real list"
  external_reference :: "addr option"

text \<open>The object that the default member initialisers build.\<close>

definition OCP_cartpoleExternalReference_init :: OCP_cartpoleExternalReference where
  "OCP_cartpoleExternalReference_init =
     \<lparr>m_c = 2, m_p = 0.2, l = 0.5, g = 9.80665,
      q = [2.5, 10, 0.01, 0.01], q_terminal = [2.5, 10, 0.01, 0.01],
      x_ref = [0, pi, 0, 0], r = [1],
      umin = [- 15.0], umax = [15.0], dummy_weight = [0.1],
      external_reference = None\<rparr>"

type_synonym cartpole_world = "OCP_cartpoleExternalReference world"

text \<open>
  \<open>synchronize()\<close>. Dereferencing the pointer reads the store; \<open>None\<close> as a result stands
  for the dereference of a pointer to no object, which a \<open>shared_ptr\<close> that owns its object
  never is.
\<close>

definition OCP_cartpoleExternalReference_synchronize ::
    "cartpole_world \<Rightarrow> cartpole_world option" where
  "OCP_cartpoleExternalReference_synchronize s =
     (case external_reference (ocp s) of
        None \<Rightarrow> Some s
      | Some p \<Rightarrow>
          (case refs s p of
             None \<Rightarrow> None
           | Some e \<Rightarrow>
               Some (s\<lparr>ocp := (ocp s)\<lparr>x_ref := (x_ref (ocp s))[0 := cart_position e]\<rparr>\<rparr>)))"

text \<open>
  The invariants that the C++ types give to every cartpole world: each array has the
  length in its type, and a non-null \<open>external_reference\<close> points to a live object.
\<close>

definition OCP_cartpoleExternalReference_wf :: "cartpole_world \<Rightarrow> bool" where
  "OCP_cartpoleExternalReference_wf s \<longleftrightarrow>
     length (q (ocp s)) = 4 \<and> length (q_terminal (ocp s)) = 4 \<and>
     length (x_ref (ocp s)) = 4 \<and> length (r (ocp s)) = 1 \<and>
     length (umin (ocp s)) = 1 \<and> length (umax (ocp s)) = 1 \<and>
     length (dummy_weight (ocp s)) = 1 \<and>
     (case external_reference (ocp s) of None \<Rightarrow> True | Some p \<Rightarrow> refs s p \<noteq> None)"

text \<open>
  The evaluators: the locals are computed first, then the output is assigned in order. They
  are \<open>const\<close> member functions whose only assignments go through the output pointer, so
  their model updates the memory and nothing else of the world.
\<close>

definition OCP_cartpoleExternalReference_eval_f ::
    "real \<Rightarrow> addr \<Rightarrow> addr \<Rightarrow> addr \<Rightarrow> cartpole_world \<Rightarrow> cartpole_world" where
  "OCP_cartpoleExternalReference_eval_f t x u dx s =
     (let this = ocp s; h0 = mem s;
          x0 = sin (h0 (x + 1));
          x1 = 1.0 / (m_c this + m_p this * x0\<^sup>2);
          x2 = cos (h0 (x + 1));
          x3 = l this * (h0 (x + 1))\<^sup>2;
          x4 = m_p this * x0
      in s\<lparr>mem := exec
         [(dx + 0, \<lambda>h. h (x + 2)),
          (dx + 1, \<lambda>h. h (x + 3)),
          (dx + 2, \<lambda>h. x1 * (h (u + 0) + x4 * (g this * x2 + x3))),
          (dx + 3, \<lambda>h. x1 * (- g this * x0 * (m_c this + m_p this) - h (u + 0) * x2
                  - x2 * x3 * x4) / l this)]
         h0\<rparr>)"

definition OCP_cartpoleExternalReference_eval_phix ::
    "real \<Rightarrow> addr \<Rightarrow> addr \<Rightarrow> cartpole_world \<Rightarrow> cartpole_world" where
  "OCP_cartpoleExternalReference_eval_phix t x phix s =
     (let this = ocp s; h0 = mem s
      in s\<lparr>mem := exec
         [(phix + 0, \<lambda>h. (1.0 / 2.0) * (q_terminal this ! 0) * (2 * h (x + 0)
                  - 2 * (x_ref this ! 0))),
          (phix + 1, \<lambda>h. (1.0 / 2.0) * (q_terminal this ! 1) * (2 * h (x + 1)
                  - 2 * (x_ref this ! 1))),
          (phix + 2, \<lambda>h. (1.0 / 2.0) * (q_terminal this ! 2) * (2 * h (x + 2)
                  - 2 * (x_ref this ! 2))),
          (phix + 3, \<lambda>h. (1.0 / 2.0) * (q_terminal this ! 3) * (2 * h (x + 3)
                  - 2 * (x_ref this ! 3)))]
         h0\<rparr>)"

definition OCP_cartpoleExternalReference_eval_hx ::
    "real \<Rightarrow> addr \<Rightarrow> addr \<Rightarrow> addr \<Rightarrow> addr \<Rightarrow> cartpole_world \<Rightarrow> cartpole_world" where
  "OCP_cartpoleExternalReference_eval_hx t x u lmd hx s =
     (let this = ocp s; h0 = mem s;
          x0 = 2 * h0 (x + 1);
          x1 = sin (h0 (x + 1));
          x2 = cos (h0 (x + 1));
          x3 = g this * x2;
          x4 = (h0 (x + 1))\<^sup>2;
          x5 = l this * x4;
          x6 = m_p this * (x3 + x5);
          x7 = x1\<^sup>2;
          x8 = m_c this + m_p this * x7;
          x9 = m_p this * x1;
          x10 = x2 * x9;
          x11 = 2 * x10 / x8\<^sup>2;
          x12 = 1.0 / x8;
          x13 = g this * x1;
          x14 = m_c this + m_p this;
          x15 = h0 (lmd + 3) / l this
      in s\<lparr>mem := exec
         [(hx + 0, \<lambda>h. (1.0 / 2.0) * (q this ! 0) * (2 * h (x + 0) - 2 * (x_ref this ! 0))),
          (hx + 1, \<lambda>h. - h (lmd + 2) * x11 * (h (u + 0) + x1 * x6)
              + h (lmd + 2) * x12 * (x2 * x6 + x9 * (2 * l this * h (x + 1) - x13))
              + (1.0 / 2.0) * (q this ! 1) * (x0 - 2 * (x_ref this ! 1))
              - x11 * x15 * (- h (u + 0) * x2 - x10 * x5 - x13 * x14)
              + x12 * x15 * (l this * m_p this * x4 * x7 - l this * x0 * x10
                  - m_p this * x2\<^sup>2 * x5 + h (u + 0) * x1 - x14 * x3)),
          (hx + 2, \<lambda>h. h (lmd + 0)
              + (1.0 / 2.0) * (q this ! 2) * (2 * h (x + 2) - 2 * (x_ref this ! 2))),
          (hx + 3, \<lambda>h. h (lmd + 1)
              + (1.0 / 2.0) * (q this ! 3) * (2 * h (x + 3) - 2 * (x_ref this ! 3)))]
         h0\<rparr>)"

definition OCP_cartpoleExternalReference_eval_hu ::
    "real \<Rightarrow> addr \<Rightarrow> addr \<Rightarrow> addr \<Rightarrow> addr \<Rightarrow> cartpole_world \<Rightarrow> cartpole_world" where
  "OCP_cartpoleExternalReference_eval_hu t x u lmd hu s =
     (let this = ocp s; h0 = mem s;
          x0 = 1.0 / (m_c this + m_p this * (sin (h0 (x + 1)))\<^sup>2)
      in s\<lparr>mem := exec
         [(hu + 0, \<lambda>h. h (lmd + 2) * x0 + (r this ! 0) * h (u + 0)
              - h (lmd + 3) * x0 * cos (h (x + 1)) / l this)]
         h0\<rparr>)"

section \<open>The hexacopter OCP\<close>

definition OCP_hexacopter_nx :: nat where
  "OCP_hexacopter_nx = 12"

definition OCP_hexacopter_nu :: nat where
  "OCP_hexacopter_nu = 6"

definition OCP_hexacopter_nc :: nat where
  "OCP_hexacopter_nc = 0"

definition OCP_hexacopter_nuc :: nat where
  "OCP_hexacopter_nuc = OCP_hexacopter_nu + OCP_hexacopter_nc"

definition OCP_hexacopter_ubound_indices :: "nat list" where
  "OCP_hexacopter_ubound_indices = [0, 1, 2, 3, 4, 5]"

record OCP_hexacopter =
  m :: real
  l :: real
  k :: real
  Ixx :: real
  Iyy :: real
  Izz :: real
  gamma :: real
  g :: real
  z_ref :: real
  q :: "real list"
  q_terminal :: "real list"
  r :: "real list"
  umin :: "real list"
  umax :: "real list"
  dummy_weight :: "real list"

definition OCP_hexacopter_init :: OCP_hexacopter where
  "OCP_hexacopter_init =
     \<lparr>m = 1.44, l = 0.23, k = 1.6 / 10 ^ 9, Ixx = 0.0348, Iyy = 0.0459, Izz = 0.0977,
      gamma = 0.01, g = 9.80665, z_ref = 5,
      q = [1, 1, 1, 0.01, 0.01, 0, 0.01, 0.01, 0.01, 0.1, 0.1, 0.001],
      q_terminal = [1, 1, 1, 0.01, 0.01, 0, 0.01, 0.01, 0.01, 0.1, 0.1, 0.001],
      r = [0.01, 0.01, 0.01, 0.01, 0.01, 0.01],
      umin = [0.144, 0.144, 0.144, 0.144, 0.144, 0.144],
      umax = [6.0, 6.0, 6.0, 6.0, 6.0, 6.0],
      dummy_weight = [0.1, 0.1, 0.1, 0.1, 0.1, 0.1]\<rparr>"

type_synonym hexacopter_world = "OCP_hexacopter world"

text \<open>\<open>synchronize()\<close> of the hexacopter has an empty body.\<close>

definition OCP_hexacopter_synchronize :: "hexacopter_world \<Rightarrow> hexacopter_world" where
  "OCP_hexacopter_synchronize s = s"

text \<open>The raw-pointer evaluators, which check no size.\<close>

definition OCP_hexacopter_eval_f ::
    "real \<Rightarrow> addr \<Rightarrow> addr \<Rightarrow> addr \<Rightarrow> hexacopter_world \<Rightarrow> hexacopter_world" where
  "OCP_hexacopter_eval_f t x u dx s =
     (let this = ocp s; h0 = mem s;
          x0 = sin (h0 (x + 3));
          x1 = sin (h0 (x + 5));
          x2 = cos (h0 (x + 5));
          x3 = cos (h0 (x + 3));
          x4 = sin (h0 (x + 4));
          x5 = 1.0 / m this;
          x6 = h0 (u + 0) + h0 (u + 2) + h0 (u + 4);
          x7 = h0 (u + 1) + h0 (u + 3) + h0 (u + 5) + x6;
          x8 = x5 * x7;
          x9 = 1.0 / Ixx this;
          x10 = - Izz this;
          x11 = (1.0 / 2.0) * h0 (u + 0);
          x12 = 1.0 / Iyy this;
          x13 = sqrt 3;
          x14 = 1.0 / Izz this
      in s\<lparr>mem := exec
         [(dx + 0, \<lambda>h. h (x + 6)),
          (dx + 1, \<lambda>h. h (x + 7)),
          (dx + 2, \<lambda>h. h (x + 8)),
          (dx + 3, \<lambda>h. h (x + 9)),
          (dx + 4, \<lambda>h. h (x + 10)),
          (dx + 5, \<lambda>h. h (x + 11)),
          (dx + 6, \<lambda>h. x8 * (x0 * x1 + x2 * x3 * x4)),
          (dx + 7, \<lambda>h. x8 * (- x0 * x2 + x1 * x3 * x4)),
          (dx + 8, \<lambda>h. - g this + x3 * x5 * x7 * cos (h (x + 4))),
          (dx + 9, \<lambda>h. l this * x9 * (- h (u + 1) - 1.0 / 2.0 * h (u + 2)
                  + (1.0 / 2.0) * h (u + 3) + h (u + 4) + (1.0 / 2.0) * h (u + 5) - x11)
              + x9 * h (x + 10) * h (x + 11) * (Iyy this + x10)),
          (dx + 10, \<lambda>h. l this * x12 * ((1.0 / 2.0) * h (u + 2) * x13
                  + (1.0 / 2.0) * h (u + 3) * x13 - 1.0 / 2.0 * h (u + 5) * x13 - x11 * x13)
              + x12 * h (x + 11) * h (x + 9) * (- Ixx this - x10)),
          (dx + 11, \<lambda>h. x14 * h (x + 10) * h (x + 9) * (Ixx this - Iyy this)
              + x14 * (- gamma this * h (x + 11) + k this * (h (u + 1) + h (u + 3) + h (u + 5)
                  - x6)))]
         h0\<rparr>)"

definition OCP_hexacopter_eval_phix ::
    "real \<Rightarrow> addr \<Rightarrow> addr \<Rightarrow> hexacopter_world \<Rightarrow> hexacopter_world" where
  "OCP_hexacopter_eval_phix t x phix s =
     (let this = ocp s; h0 = mem s;
          x0 = 2 * t;
          x1 = sin x0;
          x2 = cos x0
      in s\<lparr>mem := exec
         [(phix + 0, \<lambda>h. (1.0 / 2.0) * (q_terminal this ! 0) * (- 2 * x1 + 2 * h (x + 0))),
          (phix + 1, \<lambda>h. (1.0 / 2.0) * (q_terminal this ! 1) * (2 * x2 + 2 * h (x + 1) - 2)),
          (phix + 2, \<lambda>h. (1.0 / 2.0) * (q_terminal this ! 2) * (2 * h (x + 2) - 2 * z_ref this
                  - 4 * sin t)),
          (phix + 3, \<lambda>h. (q_terminal this ! 3) * h (x + 3)),
          (phix + 4, \<lambda>h. (q_terminal this ! 4) * h (x + 4)),
          (phix + 5, \<lambda>h. (q_terminal this ! 5) * h (x + 5)),
          (phix + 6, \<lambda>h. (1.0 / 2.0) * (q_terminal this ! 6) * (- 4 * x2 + 2 * h (x + 6))),
          (phix + 7, \<lambda>h. (1.0 / 2.0) * (q_terminal this ! 7) * (- 4 * x1 + 2 * h (x + 7))),
          (phix + 8, \<lambda>h. (1.0 / 2.0) * (q_terminal this ! 8) * (2 * h (x + 8) - 4 * cos t)),
          (phix + 9, \<lambda>h. (q_terminal this ! 9) * h (x + 9)),
          (phix + 10, \<lambda>h. (q_terminal this ! 10) * h (x + 10)),
          (phix + 11, \<lambda>h. (q_terminal this ! 11) * h (x + 11))]
         h0\<rparr>)"

definition OCP_hexacopter_eval_hx ::
    "real \<Rightarrow> addr \<Rightarrow> addr \<Rightarrow> addr \<Rightarrow> addr \<Rightarrow> hexacopter_world \<Rightarrow> hexacopter_world" where
  "OCP_hexacopter_eval_hx t x u lmd hx s =
     (let this = ocp s; h0 = mem s;
          x0 = 2 * t;
          x1 = sin x0;
          x2 = cos x0;
          x3 = sin (h0 (x + 3));
          x4 = cos (h0 (x + 4));
          x5 = (h0 (u + 0) + h0 (u + 1) + h0 (u + 2) + h0 (u + 3) + h0 (u + 4)
                  + h0 (u + 5)) / m this;
          x6 = h0 (lmd + 8) * x5;
          x7 = sin (h0 (x + 5));
          x8 = cos (h0 (x + 3));
          x9 = sin (h0 (x + 4));
          x10 = cos (h0 (x + 5));
          x11 = x10 * x3;
          x12 = h0 (lmd + 6) * x5;
          x13 = x10 * x8;
          x14 = x3 * x7;
          x15 = h0 (lmd + 7) * x5;
          x16 = x7 * x8;
          x17 = - Izz this;
          x18 = h0 (lmd + 10) * (- Ixx this - x17) / Iyy this;
          x19 = h0 (lmd + 11) / Izz this;
          x20 = x19 * (Ixx this - Iyy this);
          x21 = h0 (lmd + 9) * (Iyy this + x17) / Ixx this
      in s\<lparr>mem := exec
         [(hx + 0, \<lambda>h. (1.0 / 2.0) * (q this ! 0) * (- 2 * x1 + 2 * h (x + 0))),
          (hx + 1, \<lambda>h. (1.0 / 2.0) * (q this ! 1) * (2 * x2 + 2 * h (x + 1) - 2)),
          (hx + 2, \<lambda>h. (1.0 / 2.0) * (q this ! 2) * (2 * h (x + 2) - 2 * z_ref this
                  - 4 * sin t)),
          (hx + 3, \<lambda>h. (q this ! 3) * h (x + 3) + x12 * (- x11 * x9 + x7 * x8)
              + x15 * (- x13 - x14 * x9) - x3 * x4 * x6),
          (hx + 4, \<lambda>h. (q this ! 4) * h (x + 4) + x12 * x13 * x4 + x15 * x16 * x4
              - x6 * x8 * x9),
          (hx + 5, \<lambda>h. (q this ! 5) * h (x + 5) + x12 * (x11 - x16 * x9)
              + x15 * (x13 * x9 + x14)),
          (hx + 6, \<lambda>h. h (lmd + 0) + (1.0 / 2.0) * (q this ! 6) * (- 4 * x2 + 2 * h (x + 6))),
          (hx + 7, \<lambda>h. h (lmd + 1) + (1.0 / 2.0) * (q this ! 7) * (- 4 * x1 + 2 * h (x + 7))),
          (hx + 8, \<lambda>h. h (lmd + 2)
              + (1.0 / 2.0) * (q this ! 8) * (2 * h (x + 8) - 4 * cos t)),
          (hx + 9, \<lambda>h. h (lmd + 3) + (q this ! 9) * h (x + 9) + x18 * h (x + 11)
              + x20 * h (x + 10)),
          (hx + 10, \<lambda>h. h (lmd + 4) + (q this ! 10) * h (x + 10) + x20 * h (x + 9)
              + x21 * h (x + 11)),
          (hx + 11, \<lambda>h. - gamma this * x19 + h (lmd + 5) + (q this ! 11) * h (x + 11)
              + x18 * h (x + 9) + x21 * h (x + 10))]
         h0\<rparr>)"

definition OCP_hexacopter_eval_hu ::
    "real \<Rightarrow> addr \<Rightarrow> addr \<Rightarrow> addr \<Rightarrow> addr \<Rightarrow> hexacopter_world \<Rightarrow> hexacopter_world" where
  "OCP_hexacopter_eval_hu t x u lmd hu s =
     (let this = ocp s; h0 = mem s;
          x0 = (1.0 / 3.0) * g this * m this;
          x1 = (1.0 / 2.0) * sqrt 3 * l this * h0 (lmd + 10) / Iyy this;
          x2 = - x1;
          x3 = l this * h0 (lmd + 9) / Ixx this;
          x4 = (1.0 / 2.0) * x3;
          x5 = k this * h0 (lmd + 11) / Izz this;
          x6 = 1.0 / m this;
          x7 = sin (h0 (x + 3));
          x8 = sin (h0 (x + 5));
          x9 = cos (h0 (x + 5));
          x10 = cos (h0 (x + 3));
          x11 = sin (h0 (x + 4));
          x12 = h0 (lmd + 6) * x6 * (x10 * x11 * x9 + x7 * x8)
              + h0 (lmd + 7) * x6 * (x10 * x11 * x8 - x7 * x9)
              + h0 (lmd + 8) * x10 * x6 * cos (h0 (x + 4));
          x13 = x12 - x5;
          x14 = x13 - x4;
          x15 = x12 + x5;
          x16 = x15 + x4
      in s\<lparr>mem := exec
         [(hu + 0, \<lambda>h. (1.0 / 2.0) * (r this ! 0) * (2 * h (u + 0) - x0) + x14 + x2),
          (hu + 1, \<lambda>h. (1.0 / 2.0) * (r this ! 1) * (2 * h (u + 1) - x0) + x15 - x3),
          (hu + 2, \<lambda>h. (1.0 / 2.0) * (r this ! 2) * (2 * h (u + 2) - x0) + x1 + x14),
          (hu + 3, \<lambda>h. (1.0 / 2.0) * (r this ! 3) * (2 * h (u + 3) - x0) + x1 + x16),
          (hu + 4, \<lambda>h. (1.0 / 2.0) * (r this ! 4) * (2 * h (u + 4) - x0) + x13 + x3),
          (hu + 5, \<lambda>h. (1.0 / 2.0) * (r this ! 5) * (2 * h (u + 5) - x0) + x16 + x2)]
         h0\<rparr>)"

text \<open>
  The size-checked overloads take Eigen vectors (\<open>MatrixBase<VectorType>\<close>), of which the
  code uses \<open>size()\<close> and \<open>data()\<close>. The macro \<open>CGMRES_EIGEN_CONST_CAST\<close>, whose header is
  not among the sources, is Eigen's idiom for writing through a \<open>const\<close> reference to an
  output argument: it casts the qualifier away and leaves the vector as it is.
\<close>

record MatrixBase =
  data :: addr
  size_v :: nat

text \<open>\<open>std::to_string\<close> on a non-negative \<open>int\<close>.\<close>

definition digit :: "nat \<Rightarrow> char" where
  "digit d = ''0123456789'' ! d"

fun to_string :: "nat \<Rightarrow> string" where
  "to_string n = (if n < 10 then [digit n] else to_string (n div 10) @ [digit (n mod 10)])"

text \<open>
  A call that may throw ends either with the exception and the world as it is at the
  \<open>throw\<close> (\<open>Inl\<close>), or normally with the new world (\<open>Inr\<close>).
\<close>

type_synonym 'w outcome = "exn \<times> 'w + 'w"

definition OCP_hexacopter_eval_f_checked ::
    "real \<Rightarrow> MatrixBase \<Rightarrow> MatrixBase \<Rightarrow> MatrixBase \<Rightarrow> hexacopter_world \<Rightarrow>
     hexacopter_world outcome" where
  "OCP_hexacopter_eval_f_checked t x u dx s =
     (if size_v x \<noteq> OCP_hexacopter_nx then
        Inl (invalid_argument (''[OCP]: x.size() must be '' @ to_string OCP_hexacopter_nx), s)
      else if size_v u \<noteq> OCP_hexacopter_nu then
        Inl (invalid_argument (''[OCP]: u.size() must be '' @ to_string OCP_hexacopter_nu), s)
      else if size_v dx \<noteq> OCP_hexacopter_nx then
        Inl (invalid_argument (''[OCP]: dx.size() must be '' @ to_string OCP_hexacopter_nx), s)
      else Inr (OCP_hexacopter_eval_f t (data x) (data u) (data dx) s))"

definition OCP_hexacopter_eval_phix_checked ::
    "real \<Rightarrow> MatrixBase \<Rightarrow> MatrixBase \<Rightarrow> hexacopter_world \<Rightarrow> hexacopter_world outcome" where
  "OCP_hexacopter_eval_phix_checked t x phix s =
     (if size_v x \<noteq> OCP_hexacopter_nx then
        Inl (invalid_argument (''[OCP]: x.size() must be '' @ to_string OCP_hexacopter_nx), s)
      else if size_v phix \<noteq> OCP_hexacopter_nx then
        Inl (invalid_argument
               (''[OCP]: phix.size() must be '' @ to_string OCP_hexacopter_nx), s)
      else Inr (OCP_hexacopter_eval_phix t (data x) (data phix) s))"

text \<open>
  In \<open>eval_hx\<close> the size of the output \<open>hx\<close> is compared with \<open>nuc\<close>, while the message
  of the exception prints \<open>nx\<close>.
\<close>

definition OCP_hexacopter_eval_hx_checked ::
    "real \<Rightarrow> MatrixBase \<Rightarrow> MatrixBase \<Rightarrow> MatrixBase \<Rightarrow> MatrixBase \<Rightarrow> hexacopter_world \<Rightarrow>
     hexacopter_world outcome" where
  "OCP_hexacopter_eval_hx_checked t x uc lmd hx s =
     (if size_v x \<noteq> OCP_hexacopter_nx then
        Inl (invalid_argument (''[OCP]: x.size() must be '' @ to_string OCP_hexacopter_nx), s)
      else if size_v uc \<noteq> OCP_hexacopter_nuc then
        Inl (invalid_argument
               (''[OCP]: uc.size() must be '' @ to_string OCP_hexacopter_nuc), s)
      else if size_v lmd \<noteq> OCP_hexacopter_nx then
        Inl (invalid_argument
               (''[OCP]: lmd.size() must be '' @ to_string OCP_hexacopter_nx), s)
      else if size_v hx \<noteq> OCP_hexacopter_nuc then
        Inl (invalid_argument (''[OCP]: hx.size() must be '' @ to_string OCP_hexacopter_nx), s)
      else Inr (OCP_hexacopter_eval_hx t (data x) (data uc) (data lmd) (data hx) s))"

definition OCP_hexacopter_eval_hu_checked ::
    "real \<Rightarrow> MatrixBase \<Rightarrow> MatrixBase \<Rightarrow> MatrixBase \<Rightarrow> MatrixBase \<Rightarrow> hexacopter_world \<Rightarrow>
     hexacopter_world outcome" where
  "OCP_hexacopter_eval_hu_checked t x uc lmd hu s =
     (if size_v x \<noteq> OCP_hexacopter_nx then
        Inl (invalid_argument (''[OCP]: x.size() must be '' @ to_string OCP_hexacopter_nx), s)
      else if size_v uc \<noteq> OCP_hexacopter_nuc then
        Inl (invalid_argument
               (''[OCP]: uc.size() must be '' @ to_string OCP_hexacopter_nuc), s)
      else if size_v lmd \<noteq> OCP_hexacopter_nx then
        Inl (invalid_argument
               (''[OCP]: lmd.size() must be '' @ to_string OCP_hexacopter_nx), s)
      else if size_v hu \<noteq> OCP_hexacopter_nuc then
        Inl (invalid_argument
               (''[OCP]: hu.size() must be '' @ to_string OCP_hexacopter_nuc), s)
      else Inr (OCP_hexacopter_eval_hu t (data x) (data uc) (data lmd) (data hu) s))"

section \<open>Purity of an evaluator call\<close>

text \<open>
  The evaluators are documented with input arrays (\<open>@param[in]\<close>, \<open>const double*\<close>) and one
  output array (\<open>@param[out]\<close>), each of a documented length. An array is given by its
  first cell and its length; \<open>array h p n\<close> is its contents in the memory \<open>h\<close>. Two arrays
  are \<open>apart\<close> when one ends before the other begins, and a call is \<open>in_out\<close> when its
  output array is apart from each of its input arrays.
\<close>

definition array :: "memory \<Rightarrow> addr \<Rightarrow> nat \<Rightarrow> real list" where
  "array h p n = map (\<lambda>i. h (p + i)) [0..<n]"

definition apart :: "addr \<Rightarrow> nat \<Rightarrow> addr \<Rightarrow> nat \<Rightarrow> bool" where
  "apart p n p' n' \<longleftrightarrow> p + n \<le> p' \<or> p' + n' \<le> p"

definition in_out :: "(addr \<times> nat) list \<Rightarrow> addr \<times> nat \<Rightarrow> bool" where
  "in_out ins out \<longleftrightarrow> list_all (\<lambda>(p, n). apart p n (fst out) (snd out)) ins"

text \<open>
  The input arrays \<open>ins\<close> in the memory \<open>h\<close> and the input arrays \<open>ins'\<close> in the memory
  \<open>h'\<close> have the same contents, array by array. The arrays need not lie at the same
  addresses.
\<close>

definition same_contents ::
    "(addr \<times> nat) list \<Rightarrow> memory \<Rightarrow> (addr \<times> nat) list \<Rightarrow> memory \<Rightarrow> bool" where
  "same_contents ins h ins' h' \<longleftrightarrow>
     list_all2 (\<lambda>(p, n) (p', n'). array h p n = array h' p' n') ins ins'"

text \<open>
  A call with input arrays \<open>ins\<close> and output array \<open>out\<close> is pure when, the output being
  apart from the inputs, it changes neither a field of the OCP object nor an
  \<open>ExternalReference\<close> object, leaves the contents of every input array as they were, and
  changes no cell of the memory outside the output array.
\<close>

definition evaluator_pure ::
    "('o world \<Rightarrow> 'o world) \<Rightarrow> (addr \<times> nat) list \<Rightarrow> addr \<times> nat \<Rightarrow> bool" where
  "evaluator_pure call ins out \<longleftrightarrow>
     (in_out ins out \<longrightarrow>
        (\<forall>s. ocp (call s) = ocp s \<and> refs (call s) = refs s \<and>
             same_contents ins (mem (call s)) ins (mem s) \<and>
             (\<forall>a. a \<notin> cells (fst out) (snd out) \<longrightarrow> mem (call s) a = mem s a)))"

text \<open>
  Two calls, each with its output apart from its inputs, are deterministic when from
  worlds with the same OCP fields and the same contents of the input arrays they leave
  the same contents in their output arrays. The two calls may be given different
  pointers, and the output arrays may hold different contents before the calls.
\<close>

definition evaluator_deterministic ::
    "('o world \<Rightarrow> 'o world) \<Rightarrow> (addr \<times> nat) list \<Rightarrow> addr \<times> nat \<Rightarrow>
     ('o world \<Rightarrow> 'o world) \<Rightarrow> (addr \<times> nat) list \<Rightarrow> addr \<times> nat \<Rightarrow> bool" where
  "evaluator_deterministic call ins out call' ins' out' \<longleftrightarrow>
     (in_out ins out \<and> in_out ins' out' \<longrightarrow>
        (\<forall>s s'. ocp s = ocp s' \<and> same_contents ins (mem s) ins' (mem s') \<longrightarrow>
                array (mem (call s)) (fst out) (snd out) =
                array (mem (call' s')) (fst out') (snd out')))"

text \<open>
  An overload that may throw: either it throws, the same exception from every world and
  leaving the world as it was, or it returns from every world and is the raw-pointer
  call \<open>raw\<close>.
\<close>

definition checked_as :: "('w \<Rightarrow> 'w outcome) \<Rightarrow> ('w \<Rightarrow> 'w) \<Rightarrow> bool" where
  "checked_as call raw \<longleftrightarrow>
     (\<exists>e. \<forall>s. call s = Inl (e, s)) \<or> (\<forall>s. call s = Inr (raw s))"

text \<open>
  The right-hand side \<open>e\<close> of an assignment reads the cells \<open>A\<close> only: it has the same
  value in two memories that agree on \<open>A\<close>.
\<close>

definition reads_only :: "addr set \<Rightarrow> (memory \<Rightarrow> real) \<Rightarrow> bool" where
  "reads_only A e \<longleftrightarrow> (\<forall>h h'. agree_on A h h' \<longrightarrow> e h = e h')"

section \<open>Worlds for the examples\<close>

definition hexacopter_world0 :: hexacopter_world where
  "hexacopter_world0 = \<lparr>ocp = OCP_hexacopter_init, mem = zero_memory, refs = Map.empty\<rparr>"

definition cartpole_world0 :: cartpole_world where
  "cartpole_world0 =
     \<lparr>ocp = OCP_cartpoleExternalReference_init, mem = zero_memory, refs = Map.empty\<rparr>"

text \<open>
  A cartpole world with an external reference attached: the object at address \<open>7\<close> holds
  the cart position \<open>3\<close>.
\<close>

definition cartpole_world1 :: cartpole_world where
  "cartpole_world1 =
     \<lparr>ocp = OCP_cartpoleExternalReference_init\<lparr>external_reference := Some 7\<rparr>,
      mem = zero_memory,
      refs = [7 \<mapsto> \<lparr>cart_position = 3\<rparr>]\<rparr>"

text \<open>A hexacopter world whose memory holds \<open>1\<close> in cell \<open>6\<close> and \<open>0\<close> elsewhere.\<close>

definition hexacopter_world1 :: hexacopter_world where
  "hexacopter_world1 =
     \<lparr>ocp = OCP_hexacopter_init, mem = zero_memory(6 := 1), refs = Map.empty\<rparr>"

text \<open>
  A second one with the same OCP object, which holds in the cells \<open>100\<close> to \<open>117\<close> what the
  first holds in the cells \<open>0\<close> to \<open>17\<close>, and differs from it in the cell \<open>130\<close>.
\<close>

definition hexacopter_world2 :: hexacopter_world where
  "hexacopter_world2 =
     \<lparr>ocp = OCP_hexacopter_init, mem = zero_memory(106 := 1, 130 := 5), refs = Map.empty\<rparr>"

text \<open>
  Eigen vectors in the documented sizes, laid out one after the other from address \<open>0\<close>:
  \<open>x\<close> (12 cells), \<open>u\<close> (6), \<open>lmd\<close> (12), then two outputs of 12 cells and one of 6.
\<close>

definition vec_x :: MatrixBase where
  "vec_x = \<lparr>data = 0, size_v = 12\<rparr>"

definition vec_u :: MatrixBase where
  "vec_u = \<lparr>data = 12, size_v = 6\<rparr>"

definition vec_lmd :: MatrixBase where
  "vec_lmd = \<lparr>data = 18, size_v = 12\<rparr>"

definition vec_out12 :: MatrixBase where
  "vec_out12 = \<lparr>data = 30, size_v = 12\<rparr>"

definition vec_out6 :: MatrixBase where
  "vec_out6 = \<lparr>data = 42, size_v = 6\<rparr>"

section \<open>Properties of the horizon schedule\<close>

lemma Horizon_Horizon_ok:
  "0 < Tf \<Longrightarrow> Horizon_Horizon Tf alpha t0 =
     Inr \<lparr>Horizon_Tf = Tf, Horizon_alpha = alpha, Horizon_t0 = t0,
          Horizon_time_varying_length = (0 < alpha)\<rparr>"
  by (simp add: Horizon_Horizon_def)

lemma Horizon_Horizon_InrD:
  "Horizon_Horizon Tf alpha t0 = Inr h \<Longrightarrow>
     0 < Tf \<and> h = \<lparr>Horizon_Tf = Tf, Horizon_alpha = alpha, Horizon_t0 = t0,
                    Horizon_time_varying_length = (0 < alpha)\<rparr>"
  by (auto simp: Horizon_Horizon_def split: if_splits)

lemma exp_neg_tendsto_0: "((\<lambda>t::real. exp (- t)) \<longlongrightarrow> 0) at_top"
  by (rule filterlim_compose[OF exp_at_bot filterlim_uminus_at_bot_at_top])

lemma horizon_growth_limit: "((\<lambda>t::real. 2 * (1 - exp (- t))) \<longlongrightarrow> 2) at_top"
proof -
  have "((\<lambda>t::real. 2 * (1 - exp (- t))) \<longlongrightarrow> 2 * (1 - 0)) at_top"
    by (intro tendsto_intros exp_neg_tendsto_0)
  then show ?thesis by simp
qed

text \<open>
  C1. A horizon constructed as \<open>Horizon(Tf, alpha, t0)\<close> with \<open>Tf > 0\<close> exists, and at every
  time \<open>t\<close> its \<open>T(t)\<close> is \<open>Tf * (1 - exp(-alpha * (t - t0)))\<close> when \<open>alpha > 0\<close> and \<open>Tf\<close>
  otherwise. For \<open>alpha = 1\<close>, \<open>t0 = 0\<close>, \<open>Tf = 2\<close>: \<open>T(0) = 0\<close>, \<open>T(1) = 2 * (1 - exp(-1))\<close> and
  \<open>T(t)\<close> tends to \<open>2\<close> as \<open>t\<close> grows.
\<close>

theorem Horizon_T_value:
  "(0 < Tf \<longrightarrow>
      (\<exists>h. Horizon_Horizon Tf alpha t0 = Inr h \<and>
           (\<forall>t. Horizon_T h t =
                  (if 0 < alpha then Tf * (1 - exp (- alpha * (t - t0))) else Tf)))) \<and>
   (\<exists>h. Horizon_Horizon 2 1 0 = Inr h \<and> Horizon_T h 0 = 0 \<and>
        Horizon_T h 1 = 2 * (1 - exp (- 1)) \<and>
        ((\<lambda>t. Horizon_T h t) \<longlongrightarrow> 2) at_top)"
proof (intro conjI impI)
  assume "0 < Tf"
  then show "\<exists>h. Horizon_Horizon Tf alpha t0 = Inr h \<and>
           (\<forall>t. Horizon_T h t =
                  (if 0 < alpha then Tf * (1 - exp (- alpha * (t - t0))) else Tf))"
    by (simp add: Horizon_Horizon_ok Horizon_T_def)
next
  show "\<exists>h. Horizon_Horizon 2 1 0 = Inr h \<and> Horizon_T h 0 = 0 \<and>
        Horizon_T h 1 = 2 * (1 - exp (- 1)) \<and>
        ((\<lambda>t. Horizon_T h t) \<longlongrightarrow> 2) at_top"
    using horizon_growth_limit by (simp add: Horizon_Horizon_ok Horizon_T_def)
qed

theorem Horizon_T_value_witness:
  "(0::real) < 2 \<and>
   (\<exists>h. Horizon_Horizon 2 1 0 = Inr h \<and> Horizon_T h 3 = 2 * (1 - exp (- 3))) \<and>
   (\<exists>h. Horizon_Horizon 2 0 0 = Inr h \<and> Horizon_T h 3 = 2)"
proof -
  have "\<exists>h. Horizon_Horizon 2 1 0 = Inr h \<and>
          (\<forall>t. Horizon_T h t = (if (0::real) < 1 then 2 * (1 - exp (- 1 * (t - 0))) else 2))"
    using Horizon_T_value [of 2 1 0] by simp
  moreover have "\<exists>h. Horizon_Horizon 2 0 0 = Inr h \<and>
          (\<forall>t. Horizon_T h t = (if (0::real) < 0 then 2 * (1 - exp (- 0 * (t - 0))) else 2))"
    using Horizon_T_value [of 2 0 0] by simp
  ultimately show ?thesis by auto
qed


lemma Horizon_T_mono:
  fixes Tf alpha t0 t1 t2 :: real
  assumes "0 < Tf" "0 < alpha" "t1 \<le> t2"
  shows "Tf * (1 - exp (- alpha * (t1 - t0))) \<le> Tf * (1 - exp (- alpha * (t2 - t0)))"
proof -
  have "alpha * (t1 - t0) \<le> alpha * (t2 - t0)"
    by (rule mult_left_mono) (use assms in simp_all)
  then have "- alpha * (t2 - t0) \<le> - alpha * (t1 - t0)"
    by simp
  then have "exp (- alpha * (t2 - t0)) \<le> exp (- alpha * (t1 - t0))"
    by simp
  then have "1 - exp (- alpha * (t1 - t0)) \<le> 1 - exp (- alpha * (t2 - t0))"
    by simp
  then show ?thesis
    using assms(1) by (simp add: mult_left_mono)
qed

lemma Horizon_T_range:
  fixes Tf alpha t0 t :: real
  assumes "0 < Tf" "0 < alpha" "t0 \<le> t"
  shows "0 \<le> Tf * (1 - exp (- alpha * (t - t0)))"
    and "Tf * (1 - exp (- alpha * (t - t0))) \<le> Tf"
proof -
  have "0 \<le> alpha * (t - t0)"
    by (rule mult_nonneg_nonneg) (use assms in simp_all)
  then have "- alpha * (t - t0) \<le> 0"
    by simp
  then have "exp (- alpha * (t - t0)) \<le> 1"
    by (simp only: exp_le_one_iff)
  then show "0 \<le> Tf * (1 - exp (- alpha * (t - t0)))"
    using assms(1) by simp
  have "0 \<le> Tf * exp (- alpha * (t - t0))"
    using assms(1) by simp
  then show "Tf * (1 - exp (- alpha * (t - t0))) \<le> Tf"
    by (simp add: algebra_simps)
qed

text \<open>
  C3. For a horizon constructed with \<open>Tf > 0\<close> and anchor \<open>t0\<close>: when \<open>alpha > 0\<close>, \<open>T\<close> is
  monotone non-decreasing on \<open>t \<ge> t0\<close>, lies between \<open>0\<close> and \<open>Tf\<close> there, and \<open>T(t0) = 0\<close>;
  when \<open>alpha \<le> 0\<close>, \<open>T(t) = Tf\<close> at every \<open>t\<close>.
\<close>

theorem Horizon_T_contract:
  assumes "0 < Tf"
  shows "\<exists>h. Horizon_Horizon Tf alpha t0 = Inr h \<and>
           (0 < alpha \<longrightarrow>
              (\<forall>t1 t2. t0 \<le> t1 \<and> t1 \<le> t2 \<longrightarrow> Horizon_T h t1 \<le> Horizon_T h t2) \<and>
              (\<forall>t. t0 \<le> t \<longrightarrow> 0 \<le> Horizon_T h t \<and> Horizon_T h t \<le> Tf) \<and>
              Horizon_T h t0 = 0) \<and>
           (alpha \<le> 0 \<longrightarrow> (\<forall>t. Horizon_T h t = Tf))"
proof (cases "0 < alpha")
  case True
  with assms show ?thesis
    by (simp add: Horizon_Horizon_ok Horizon_T_def Horizon_T_mono Horizon_T_range)
next
  case False
  with assms show ?thesis
    by (simp add: Horizon_Horizon_ok Horizon_T_def)
qed

theorem Horizon_T_contract_witness:
  "(0::real) < 2 \<and>
   (\<exists>h. Horizon_Horizon 2 1 0 = Inr h \<and> Horizon_T h 1 \<le> Horizon_T h 3 \<and>
        0 \<le> Horizon_T h 1 \<and> Horizon_T h 1 \<le> 2 \<and> Horizon_T h 0 = 0) \<and>
   (\<exists>h. Horizon_Horizon 2 0 0 = Inr h \<and> Horizon_T h (- 5) = 2)"
proof -
  obtain h where h: "Horizon_Horizon 2 1 0 = Inr h"
    "\<forall>t1 t2. 0 \<le> t1 \<and> t1 \<le> t2 \<longrightarrow> Horizon_T h t1 \<le> Horizon_T h t2"
    "\<forall>t. 0 \<le> t \<longrightarrow> 0 \<le> Horizon_T h t \<and> Horizon_T h t \<le> 2"
    "Horizon_T h 0 = 0"
    using Horizon_T_contract [of 2 1 0] by auto
  have "Horizon_T h 1 \<le> Horizon_T h 3"
    using h(2) by simp
  moreover have "0 \<le> Horizon_T h 1 \<and> Horizon_T h 1 \<le> 2"
    using h(3) by simp
  moreover obtain h' where "Horizon_Horizon 2 0 0 = Inr h'" "\<forall>t. Horizon_T h' t = 2"
    using Horizon_T_contract [of 2 0 0] by auto
  ultimately show ?thesis
    using h(1,4) by auto
qed

lemma Horizon_run_Tf: "Horizon_Tf (Horizon_run h cs) = Horizon_Tf h"
proof (induction cs arbitrary: h)
  case Nil
  show ?case by (simp add: Horizon_run_def)
next
  case (Cons c cs)
  have "Horizon_Tf (Horizon_step h c) = Horizon_Tf h"
    by (cases c) (simp_all add: Horizon_reset_def)
  with Cons [of "Horizon_step h c"] show ?case
    by (simp add: Horizon_run_def)
qed

lemma Horizon_Horizon_S_Fin:
  "Horizon_Horizon_S (Fin Tf) (Fin alpha) (Fin t0) =
     map_sum id Horizon_numbers (Horizon_Horizon Tf alpha t0)"
  by (simp add: Horizon_Horizon_S_def Horizon_Horizon_def Horizon_numbers_def)

lemma Horizon_run_S_Tf: "Tf_S (Horizon_run_S h cs) = Tf_S h"
proof (induction cs arbitrary: h)
  case Nil
  show ?case by (simp add: Horizon_run_S_def)
next
  case (Cons c cs)
  have "Tf_S (Horizon_step_S h c) = Tf_S h"
    by (cases c) (simp_all add: Horizon_reset_S_def)
  with Cons [of "Horizon_step_S h c"] show ?case
    by (simp add: Horizon_run_S_def)
qed

text \<open>
  What the constructor does with a NaN: the comparison \<open>Tf <= 0.0\<close> is false, the object is
  built, and its \<open>Tf_\<close> is the NaN.
\<close>

lemma Horizon_Horizon_S_NaN:
  "Horizon_Horizon_S NaN alpha t0 =
     Inr \<lparr>Tf_S = NaN, alpha_S = alpha, t0_S = t0,
          time_varying_length_S = Scalar_less (Fin 0) alpha\<rparr>"
  by (simp add: Horizon_Horizon_S_def)

text \<open>
  C4, as the claim states it, fails: the class has a second constructor, the defaulted
  \<open>Horizon()\<close>, which checks nothing. A value-initialised horizon has \<open>Tf_ = 0\<close>, which is
  not \<open>> 0\<close>, and its \<open>T\<close> returns \<open>0\<close>.
\<close>

theorem Horizon_default_counterexample:
  "Tf_S (Horizon_default_S zero_storage_S) = Fin 0 \<and>
   \<not> Scalar_less (Fin 0) (Tf_S (Horizon_default_S zero_storage_S)) \<and>
   \<not> 0 < Horizon_Tf (Horizon_default zero_storage) \<and>
   Horizon_T (Horizon_default zero_storage) 1 = 0"
  by (simp add: Horizon_default_S_def zero_storage_S_def Horizon_default_def zero_storage_def
      Horizon_T_def)

text \<open>
  C4, amended. The constructor \<open>Horizon(Tf, alpha, t0)\<close> throws \<open>std::invalid_argument\<close> if
  and only if \<open>Tf <= 0\<close>, as the comparison of doubles decides it; every horizon obtained
  from this constructor with a \<open>Tf\<close> that is not a NaN has \<open>Tf_ = Tf > 0\<close>, and keeps it
  through every sequence of calls of \<open>T\<close> and \<open>reset\<close>.
\<close>

theorem Horizon_Horizon_throws_iff:
  "((\<exists>msg. Horizon_Horizon_S Tf alpha t0 = Inl (invalid_argument msg)) \<longleftrightarrow>
      Scalar_le Tf (Fin 0)) \<and>
   (\<forall>h cs. Tf \<noteq> NaN \<and> Horizon_Horizon_S Tf alpha t0 = Inr h \<longrightarrow>
       Tf_S (Horizon_run_S h cs) = Tf \<and> Scalar_less (Fin 0) (Tf_S (Horizon_run_S h cs)))"
proof (intro conjI allI impI)
  show "(\<exists>msg. Horizon_Horizon_S Tf alpha t0 = Inl (invalid_argument msg)) \<longleftrightarrow>
      Scalar_le Tf (Fin 0)"
    by (simp add: Horizon_Horizon_S_def)
next
  fix h cs
  assume a: "Tf \<noteq> NaN \<and> Horizon_Horizon_S Tf alpha t0 = Inr h"
  then have n: "\<not> Scalar_le Tf (Fin 0)" and h: "Tf_S h = Tf"
    by (auto simp: Horizon_Horizon_S_def split: if_splits)
  from a n have "Scalar_less (Fin 0) Tf"
    by (cases Tf) simp_all
  with h show "Tf_S (Horizon_run_S h cs) = Tf" "Scalar_less (Fin 0) (Tf_S (Horizon_run_S h cs))"
    by (simp_all add: Horizon_run_S_Tf)
qed

theorem Horizon_Horizon_throws_iff_witness:
  "Scalar_le (Fin 0) (Fin 0) \<and>
   (\<exists>msg. Horizon_Horizon_S (Fin 0) (Fin 1) (Fin 0) = Inl (invalid_argument msg)) \<and>
   (\<exists>msg. Horizon_Horizon_S MInf (Fin 1) (Fin 0) = Inl (invalid_argument msg)) \<and>
   (\<exists>h. Horizon_Horizon_S (Fin 1) (Fin 1) (Fin 0) = Inr h \<and>
        Tf_S (Horizon_run_S h [call_reset_S (Fin 3), call_T_S (Fin 4), call_reset_S NaN])
          = Fin 1 \<and>
        Scalar_less (Fin 0)
          (Tf_S (Horizon_run_S h [call_reset_S (Fin 3), call_T_S (Fin 4), call_reset_S NaN]))) \<and>
   (\<exists>h. Horizon_Horizon_S PInf (Fin 1) (Fin 0) = Inr h \<and>
        Scalar_less (Fin 0) (Tf_S (Horizon_run_S h [call_reset_S (Fin 3)])))"
proof -
  have t: "\<exists>msg. Horizon_Horizon_S (Fin 0) (Fin 1) (Fin 0) = Inl (invalid_argument msg)"
    "\<exists>msg. Horizon_Horizon_S MInf (Fin 1) (Fin 0) = Inl (invalid_argument msg)"
    using Horizon_Horizon_throws_iff [of "Fin 0" "Fin 1" "Fin 0"]
      Horizon_Horizon_throws_iff [of MInf "Fin 1" "Fin 0"]
    by simp_all
  have "\<exists>h. Horizon_Horizon_S (Fin 1) (Fin 1) (Fin 0) = Inr h"
    by (simp add: Horizon_Horizon_S_def)
  then have one: "\<exists>h. Horizon_Horizon_S (Fin 1) (Fin 1) (Fin 0) = Inr h \<and>
        Tf_S (Horizon_run_S h [call_reset_S (Fin 3), call_T_S (Fin 4), call_reset_S NaN])
          = Fin 1 \<and>
        Scalar_less (Fin 0)
          (Tf_S (Horizon_run_S h [call_reset_S (Fin 3), call_T_S (Fin 4), call_reset_S NaN]))"
    using Horizon_Horizon_throws_iff [of "Fin 1" "Fin 1" "Fin 0"] by auto
  have "\<exists>h. Horizon_Horizon_S PInf (Fin 1) (Fin 0) = Inr h"
    by (simp add: Horizon_Horizon_S_def)
  then have inf: "\<exists>h. Horizon_Horizon_S PInf (Fin 1) (Fin 0) = Inr h \<and>
        Scalar_less (Fin 0) (Tf_S (Horizon_run_S h [call_reset_S (Fin 3)]))"
    using Horizon_Horizon_throws_iff [of PInf "Fin 1" "Fin 0"] by auto
  from t one inf show ?thesis
    by simp
qed

lemma Horizon_run_frame:
  "Horizon_alpha (Horizon_run h cs) = Horizon_alpha h \<and>
   Horizon_time_varying_length (Horizon_run h cs) = Horizon_time_varying_length h"
proof (induction cs arbitrary: h)
  case Nil
  show ?case by (simp add: Horizon_run_def)
next
  case (Cons c cs)
  have "Horizon_alpha (Horizon_step h c) = Horizon_alpha h \<and>
      Horizon_time_varying_length (Horizon_step h c) = Horizon_time_varying_length h"
    by (cases c) (simp_all add: Horizon_reset_def)
  with Cons [of "Horizon_step h c"] show ?case
    by (simp add: Horizon_run_def)
qed

text \<open>
  C10. \<open>reset(t0_new)\<close> assigns the anchor \<open>t0_\<close> and leaves \<open>Tf_\<close>, \<open>alpha_\<close> and the
  time-varying flag as they were; for a horizon constructed with \<open>alpha > 0\<close>, whatever
  calls of \<open>T\<close> and \<open>reset\<close> it has seen since, \<open>T(t0_new) = 0\<close> right after
  \<open>reset(t0_new)\<close>.
\<close>

theorem Horizon_reset_frame:
  "Horizon_t0 (Horizon_reset h t0_new) = t0_new \<and>
   Horizon_Tf (Horizon_reset h t0_new) = Horizon_Tf h \<and>
   Horizon_alpha (Horizon_reset h t0_new) = Horizon_alpha h \<and>
   Horizon_time_varying_length (Horizon_reset h t0_new) = Horizon_time_varying_length h \<and>
   (\<forall>Tf alpha t0 h0 cs.
       0 < alpha \<and> Horizon_Horizon Tf alpha t0 = Inr h0 \<and> h = Horizon_run h0 cs \<longrightarrow>
       Horizon_T (Horizon_reset h t0_new) t0_new = 0)"
proof (intro conjI allI impI)
  fix Tf alpha t0 h0 cs
  assume a: "0 < alpha \<and> Horizon_Horizon Tf alpha t0 = Inr h0 \<and> h = Horizon_run h0 cs"
  then have "Horizon_time_varying_length h0"
    by (auto dest!: Horizon_Horizon_InrD)
  with a have "Horizon_time_varying_length h"
    by (simp add: Horizon_run_frame)
  then show "Horizon_T (Horizon_reset h t0_new) t0_new = 0"
    by (simp add: Horizon_reset_def Horizon_T_def)
qed (simp_all add: Horizon_reset_def)

theorem Horizon_reset_frame_witness:
  "(0::real) < 1 \<and>
   (\<exists>h0. Horizon_Horizon 2 1 0 = Inr h0 \<and>
      Horizon_t0 (Horizon_reset (Horizon_run h0 [call_T 1, call_reset 3]) 5) = 5 \<and>
      Horizon_Tf (Horizon_reset (Horizon_run h0 [call_T 1, call_reset 3]) 5) = 2 \<and>
      Horizon_T (Horizon_reset (Horizon_run h0 [call_T 1, call_reset 3]) 5) 5 = 0)"
proof -
  obtain h0 where c: "Horizon_Horizon 2 1 0 = Inr h0"
    by (simp add: Horizon_Horizon_def)
  then have "Horizon_Tf h0 = 2"
    by (auto dest: Horizon_Horizon_InrD)
  then have "Horizon_Tf (Horizon_run h0 [call_T 1, call_reset 3]) = 2"
    by (simp add: Horizon_run_def Horizon_reset_def)
  moreover have "Horizon_T (Horizon_reset (Horizon_run h0 [call_T 1, call_reset 3]) 5) 5 = 0"
    using c Horizon_reset_frame [of "Horizon_run h0 [call_T 1, call_reset 3]" 5]
    by (elim conjE allE [of _ 2] allE [of _ 1] allE [of _ 0] allE [of _ h0]
        allE [of _ "[call_T 1, call_reset 3]"]) simp
  ultimately show ?thesis
    using c Horizon_reset_frame [of "Horizon_run h0 [call_T 1, call_reset 3]" 5]
    by auto
qed

section \<open>Properties of the Fischer-Burmeister function\<close>

text \<open>
  C7. With \<open>\<epsilon> = 0\<close> the Fischer-Burmeister function vanishes exactly on the
  complementarity set: \<open>FB(a,b;0) = 0\<close> if and only if \<open>a \<ge> 0\<close>, \<open>b \<ge> 0\<close> and \<open>a * b = 0\<close>.
\<close>

theorem FB_zero_iff: "FB a b 0 = 0 \<longleftrightarrow> (a \<ge> 0 \<and> b \<ge> 0 \<and> a * b = 0)"
proof
  assume "FB a b 0 = 0"
  then have e: "a + b = sqrt (a\<^sup>2 + b\<^sup>2)"
    by (simp add: FB_def)
  then have nn: "0 \<le> a + b"
    by (metis real_sqrt_ge_zero sum_power2_ge_zero)
  from e have "(a + b)\<^sup>2 = a\<^sup>2 + b\<^sup>2"
    by (metis real_sqrt_pow2 sum_power2_ge_zero)
  then have "a * b = 0"
    by (simp add: power2_sum)
  then show "a \<ge> 0 \<and> b \<ge> 0 \<and> a * b = 0"
    using nn by auto
next
  assume "a \<ge> 0 \<and> b \<ge> 0 \<and> a * b = 0"
  then show "FB a b 0 = 0"
    by (auto simp: FB_def)
qed

section \<open>Running assignments\<close>

lemma exec_frame: "a \<notin> set (map fst ss) \<Longrightarrow> exec ss h a = h a"
  by (induction ss h rule: exec.induct) auto

text \<open>
  From here on \<open>exec\<close> is unfolded only where a concrete run is evaluated: the lemmas
  below speak about a whole run.
\<close>

declare exec.simps [simp del]
declare to_string.simps [simp del]

lemma exec_frame_world:
  "a \<notin> set (map fst ss) \<Longrightarrow> mem (s\<lparr>mem := exec ss (mem s)\<rparr>) a = mem s a"
  by (simp add: exec_frame)

text \<open>
  A run that assigns each cell once, with right-hand sides that read only cells it does
  not assign, leaves in each assigned cell the value its right-hand side has in the
  memory before the run.
\<close>

lemma exec_value:
  assumes "distinct (map fst ss)" and "list_all (\<lambda>(a, e). reads_only A e) ss"
    and "A \<inter> set (map fst ss) = {}" and "(a, e) \<in> set ss"
  shows "exec ss h a = e h"
  using assms
proof (induction ss arbitrary: h)
  case Nil
  then show ?case by simp
next
  case (Cons st ss)
  obtain b f where st: "st = (b, f)"
    by (cases st)
  let ?h = "h(b := f h)"
  have run: "exec (st # ss) h = exec ss ?h"
    by (simp add: st exec.simps)
  show ?case
  proof (cases "(a, e) = (b, f)")
    case True
    with Cons.prems(1) have "a \<notin> set (map fst ss)"
      by (simp add: st)
    then have "exec ss ?h a = ?h a"
      by (rule exec_frame)
    with True run show ?thesis
      by simp
  next
    case False
    with Cons.prems(4) have mem: "(a, e) \<in> set ss"
      by (auto simp: st)
    have "exec ss ?h a = e ?h"
      using Cons.prems(1-3) mem by (intro Cons.IH) (auto simp: st)
    moreover have "reads_only A e"
      using Cons.prems(2) mem by (auto simp: list_all_iff)
    moreover have "agree_on A ?h h"
      using Cons.prems(3) by (auto simp: agree_on_def st)
    ultimately show ?thesis
      using run by (simp add: reads_only_def)
  qed
qed

lemma exec_values:
  assumes "distinct (map fst ss)" and "list_all (\<lambda>(a, e). reads_only A e) ss"
    and "A \<inter> set (map fst ss) = {}"
  shows "map (exec ss h) (map fst ss) = map (\<lambda>(a, e). e h) ss"
proof -
  have "exec ss h (fst st) = (case st of (a, e) \<Rightarrow> e h)" if "st \<in> set ss" for st
    using exec_value [OF assms, of "fst st" "snd st" h] that by (cases st) simp
  then show ?thesis
    by simp
qed

subsection \<open>Arrays\<close>

lemma array_eq_iff:
  "array h p n = array h' p' n \<longleftrightarrow> (\<forall>i<n. h (p + i) = h' (p' + i))"
  by (auto simp: array_def list_eq_iff_nth_eq)

lemma array_as_map: "array h p n = map h (map (\<lambda>i. p + i) [0..<n])"
  by (simp add: array_def comp_def)

lemma set_cells: "set (map (\<lambda>i. p + i) [0..<n]) = cells p n"
proof -
  have "(\<lambda>i. p + i) ` {0..<n} = {p..<p + n}"
    by (auto simp: image_iff intro: le_Suc_ex)
  then show ?thesis
    by (simp add: cells_def)
qed

lemma distinct_cells: "distinct (map (\<lambda>i. p + i) [0..<n])"
  by (simp add: distinct_map inj_on_def)

lemma apart_disjoint: "apart p n p' n' \<Longrightarrow> cells p n \<inter> cells p' n' = {}"
  by (auto simp: apart_def cells_def)

lemma upt_12: "[0..<12] = [0, 1, 2, 3, 4, 5, 6, 7, 8, 9, 10, 11 :: nat]"
  by code_simp

lemma upt_6: "[0..<6] = [0, 1, 2, 3, 4, 5 :: nat]"
  by code_simp

lemma upt_4: "[0..<4] = [0, 1, 2, 3 :: nat]"
  by code_simp

lemma upt_1: "[0..<1] = [0 :: nat]"
  by code_simp

lemmas upt_dims = upt_12 upt_6 upt_4 upt_1

text \<open>
  Two such runs, on output arrays of the same length, whose right-hand sides have pairwise
  the same values in the memories before the runs, leave the same contents in their
  output arrays.
\<close>

lemma exec_same_output:
  assumes "map fst ss = map (\<lambda>i. p + i) [0..<n]"
    and "map fst ss' = map (\<lambda>i. p' + i) [0..<n]"
    and "list_all (\<lambda>(a, e). reads_only A e) ss"
    and "list_all (\<lambda>(a, e). reads_only A' e) ss'"
    and "A \<inter> cells p n = {}" and "A' \<inter> cells p' n = {}"
    and "list_all2 (\<lambda>(a, e) (a', e'). e (mem s) = e' (mem s')) ss ss'"
  shows "array (mem (s\<lparr>mem := exec ss (mem s)\<rparr>)) p n =
         array (mem (s'\<lparr>mem := exec ss' (mem s')\<rparr>)) p' n"
proof -
  have d: "distinct (map fst ss)" "distinct (map fst ss')"
    by (simp_all only: assms(1,2) distinct_cells)
  have i: "A \<inter> set (map fst ss) = {}" "A' \<inter> set (map fst ss') = {}"
    using assms(5,6) by (simp_all only: assms(1,2) set_cells)
  have "array (exec ss (mem s)) p n = map (exec ss (mem s)) (map fst ss)"
    by (simp only: array_as_map assms(1))
  also have "\<dots> = map (\<lambda>(a, e). e (mem s)) ss"
    using d(1) assms(3) i(1) by (rule exec_values)
  also have "\<dots> = map (\<lambda>(a, e). e (mem s')) ss'"
    using assms(7) by (induction rule: list_all2_induct) auto
  also have "\<dots> = map (exec ss' (mem s')) (map fst ss')"
    using d(2) assms(4) i(2) by (rule exec_values [symmetric])
  also have "\<dots> = array (exec ss' (mem s')) p' n"
    by (simp only: array_as_map assms(2))
  finally show ?thesis
    by simp
qed

text \<open>A call that changes no cell outside its output array leaves the inputs apart from it.\<close>

lemma frame_same_contents:
  assumes "\<forall>a. a \<notin> cells p n \<longrightarrow> h' a = h a" and "apart p' n' p n"
  shows "array h' p' n' = array h p' n'"
proof -
  have "h' (p' + i) = h (p' + i)" if "i < n'" for i
  proof -
    from assms(2) that have "p' + i \<notin> cells p n"
      by (auto simp: apart_def cells_def)
    with assms(1) show ?thesis
      by blast
  qed
  then show ?thesis
    by (simp add: array_eq_iff)
qed

lemma array_12D:
  assumes "array h p 12 = array h' p' 12"
  shows "h (p + 0) = h' (p' + 0) \<and> h (p + 1) = h' (p' + 1) \<and> h (p + 2) = h' (p' + 2) \<and>
    h (p + 3) = h' (p' + 3) \<and> h (p + 4) = h' (p' + 4) \<and> h (p + 5) = h' (p' + 5) \<and>
    h (p + 6) = h' (p' + 6) \<and> h (p + 7) = h' (p' + 7) \<and> h (p + 8) = h' (p' + 8) \<and>
    h (p + 9) = h' (p' + 9) \<and> h (p + 10) = h' (p' + 10) \<and> h (p + 11) = h' (p' + 11)"
  using assms by (simp add: array_def upt_12)

lemma array_6D:
  assumes "array h p 6 = array h' p' 6"
  shows "h (p + 0) = h' (p' + 0) \<and> h (p + 1) = h' (p' + 1) \<and> h (p + 2) = h' (p' + 2) \<and>
    h (p + 3) = h' (p' + 3) \<and> h (p + 4) = h' (p' + 4) \<and> h (p + 5) = h' (p' + 5)"
  using assms by (simp add: array_def upt_6)

lemma array_4D:
  assumes "array h p 4 = array h' p' 4"
  shows "h (p + 0) = h' (p' + 0) \<and> h (p + 1) = h' (p' + 1) \<and> h (p + 2) = h' (p' + 2) \<and>
    h (p + 3) = h' (p' + 3)"
  using assms by (simp add: array_def upt_4)

lemma array_1D:
  assumes "array h p 1 = array h' p' 1"
  shows "h (p + 0) = h' (p' + 0)"
  using assms by (simp add: array_def)

lemma cells_12: "cells p 12 = {p, p+1, p+2, p+3, p+4, p+5, p+6, p+7, p+8, p+9, p+10, p+11}"
  unfolding cells_def by (rule set_eqI) (simp, presburger)

lemma cells_6: "cells p 6 = {p, p+1, p+2, p+3, p+4, p+5}"
  by (auto simp: cells_def)

lemma cells_4: "cells p 4 = {p, p+1, p+2, p+3}"
  by (auto simp: cells_def)


section \<open>Purity of the raw-pointer evaluators\<close>

text \<open>
  Each evaluator is a run of assignments to the cells of its output array, one assignment
  to each cell, whose right-hand sides read the OCP object and the input arrays only. The
  input arrays are \<open>x\<close>, \<open>u\<close> and \<open>lmd\<close> in their documented lengths.
\<close>

lemma OCP_cartpoleExternalReference_eval_f_frame:
  fixes s :: cartpole_world
  shows "ocp (OCP_cartpoleExternalReference_eval_f t x u dx s) = ocp s"
    and "refs (OCP_cartpoleExternalReference_eval_f t x u dx s) = refs s"
    and "a \<notin> cells dx 4 \<Longrightarrow> mem (OCP_cartpoleExternalReference_eval_f t x u dx s) a = mem s a"
proof -
  show "ocp (OCP_cartpoleExternalReference_eval_f t x u dx s) = ocp s"
    by (simp add: OCP_cartpoleExternalReference_eval_f_def Let_def)
  show "refs (OCP_cartpoleExternalReference_eval_f t x u dx s) = refs s"
    by (simp add: OCP_cartpoleExternalReference_eval_f_def Let_def)
  show "mem (OCP_cartpoleExternalReference_eval_f t x u dx s) a = mem s a" if "a \<notin> cells dx 4"
    unfolding OCP_cartpoleExternalReference_eval_f_def Let_def
    using that by (intro exec_frame_world) (simp add: cells_4)
qed

lemma OCP_cartpoleExternalReference_eval_f_pure:
  "evaluator_pure (OCP_cartpoleExternalReference_eval_f t x u dx)
     [(x, 4), (u, 1)] (dx, 4)"
  unfolding evaluator_pure_def
proof (intro impI allI conjI)
  fix s :: cartpole_world
  assume "in_out [(x, 4), (u, 1)] (dx, 4)"
  then have ap: "apart x 4 dx 4" "apart u 1 dx 4"
    by (simp_all add: in_out_def)
  show "ocp (OCP_cartpoleExternalReference_eval_f t x u dx s) = ocp s"
    and "refs (OCP_cartpoleExternalReference_eval_f t x u dx s) = refs s"
    by (rule OCP_cartpoleExternalReference_eval_f_frame)+
  have c1: "array (mem (OCP_cartpoleExternalReference_eval_f t x u dx s)) x 4 = array (mem s) x 4"
    by (rule frame_same_contents [OF _ ap(1)]) (simp add: OCP_cartpoleExternalReference_eval_f_frame(3))
  have c2: "array (mem (OCP_cartpoleExternalReference_eval_f t x u dx s)) u 1 = array (mem s) u 1"
    by (rule frame_same_contents [OF _ ap(2)]) (simp add: OCP_cartpoleExternalReference_eval_f_frame(3))
  note c = c1 c2
  from c show "same_contents [(x, 4), (u, 1)] (mem (OCP_cartpoleExternalReference_eval_f t x u dx s))
          [(x, 4), (u, 1)] (mem s)"
    by (simp add: same_contents_def)
next
  fix s :: cartpole_world and a
  assume "a \<notin> cells (fst (dx, 4)) (snd (dx, 4))"
  then show "mem (OCP_cartpoleExternalReference_eval_f t x u dx s) a = mem s a"
    by (simp add: OCP_cartpoleExternalReference_eval_f_frame(3))
qed

lemma OCP_cartpoleExternalReference_eval_f_deterministic:
  "evaluator_deterministic
     (OCP_cartpoleExternalReference_eval_f t x u dx) [(x, 4), (u, 1)] (dx, 4)
     (OCP_cartpoleExternalReference_eval_f t x' u' dx') [(x', 4), (u', 1)] (dx', 4)"
  unfolding evaluator_deterministic_def
proof (intro impI allI)
  fix s s' :: cartpole_world
  assume "in_out [(x, 4), (u, 1)] (dx, 4) \<and>
    in_out [(x', 4), (u', 1)] (dx', 4)"
  then have ap: "(cells x 4 \<union> cells u 1) \<inter> cells dx 4 = {}"
    "(cells x' 4 \<union> cells u' 1) \<inter> cells dx' 4 = {}"
    by (simp_all add: in_out_def Int_Un_distrib2 apart_disjoint)
  assume "ocp s = ocp s' \<and>
    same_contents [(x, 4), (u, 1)] (mem s) [(x', 4), (u', 1)] (mem s')"
  then have o: "ocp s = ocp s'"
    and e: "array (mem s) x 4 = array (mem s') x' 4" "array (mem s) u 1 = array (mem s') u' 1"
    by (simp_all add: same_contents_def)
  have "array (mem (OCP_cartpoleExternalReference_eval_f t x u dx s)) dx 4 =
        array (mem (OCP_cartpoleExternalReference_eval_f t x' u' dx' s')) dx' 4"
    unfolding OCP_cartpoleExternalReference_eval_f_def Let_def
    by (rule exec_same_output [OF _ _ _ _ ap])
       (use o array_4D [OF e(1)] array_1D [OF e(2)] in
         \<open>simp_all add: upt_dims reads_only_def agree_on_def cells_def\<close>)
  then show "array (mem (OCP_cartpoleExternalReference_eval_f t x u dx s)) (fst (dx, 4)) (snd (dx, 4)) =
        array (mem (OCP_cartpoleExternalReference_eval_f t x' u' dx' s')) (fst (dx', 4)) (snd (dx', 4))"
    by simp
qed

lemma OCP_cartpoleExternalReference_eval_phix_frame:
  fixes s :: cartpole_world
  shows "ocp (OCP_cartpoleExternalReference_eval_phix t x phix s) = ocp s"
    and "refs (OCP_cartpoleExternalReference_eval_phix t x phix s) = refs s"
    and "a \<notin> cells phix 4 \<Longrightarrow> mem (OCP_cartpoleExternalReference_eval_phix t x phix s) a = mem s a"
proof -
  show "ocp (OCP_cartpoleExternalReference_eval_phix t x phix s) = ocp s"
    by (simp add: OCP_cartpoleExternalReference_eval_phix_def Let_def)
  show "refs (OCP_cartpoleExternalReference_eval_phix t x phix s) = refs s"
    by (simp add: OCP_cartpoleExternalReference_eval_phix_def Let_def)
  show "mem (OCP_cartpoleExternalReference_eval_phix t x phix s) a = mem s a" if "a \<notin> cells phix 4"
    unfolding OCP_cartpoleExternalReference_eval_phix_def Let_def
    using that by (intro exec_frame_world) (simp add: cells_4)
qed

lemma OCP_cartpoleExternalReference_eval_phix_pure:
  "evaluator_pure (OCP_cartpoleExternalReference_eval_phix t x phix)
     [(x, 4)] (phix, 4)"
  unfolding evaluator_pure_def
proof (intro impI allI conjI)
  fix s :: cartpole_world
  assume "in_out [(x, 4)] (phix, 4)"
  then have ap: "apart x 4 phix 4"
    by (simp_all add: in_out_def)
  show "ocp (OCP_cartpoleExternalReference_eval_phix t x phix s) = ocp s"
    and "refs (OCP_cartpoleExternalReference_eval_phix t x phix s) = refs s"
    by (rule OCP_cartpoleExternalReference_eval_phix_frame)+
  have c1: "array (mem (OCP_cartpoleExternalReference_eval_phix t x phix s)) x 4 = array (mem s) x 4"
    by (rule frame_same_contents [OF _ ap(1)]) (simp add: OCP_cartpoleExternalReference_eval_phix_frame(3))
  note c = c1
  from c show "same_contents [(x, 4)] (mem (OCP_cartpoleExternalReference_eval_phix t x phix s))
          [(x, 4)] (mem s)"
    by (simp add: same_contents_def)
next
  fix s :: cartpole_world and a
  assume "a \<notin> cells (fst (phix, 4)) (snd (phix, 4))"
  then show "mem (OCP_cartpoleExternalReference_eval_phix t x phix s) a = mem s a"
    by (simp add: OCP_cartpoleExternalReference_eval_phix_frame(3))
qed

lemma OCP_cartpoleExternalReference_eval_phix_deterministic:
  "evaluator_deterministic
     (OCP_cartpoleExternalReference_eval_phix t x phix) [(x, 4)] (phix, 4)
     (OCP_cartpoleExternalReference_eval_phix t x' phix') [(x', 4)] (phix', 4)"
  unfolding evaluator_deterministic_def
proof (intro impI allI)
  fix s s' :: cartpole_world
  assume "in_out [(x, 4)] (phix, 4) \<and>
    in_out [(x', 4)] (phix', 4)"
  then have ap: "(cells x 4) \<inter> cells phix 4 = {}"
    "(cells x' 4) \<inter> cells phix' 4 = {}"
    by (simp_all add: in_out_def Int_Un_distrib2 apart_disjoint)
  assume "ocp s = ocp s' \<and>
    same_contents [(x, 4)] (mem s) [(x', 4)] (mem s')"
  then have o: "ocp s = ocp s'"
    and e: "array (mem s) x 4 = array (mem s') x' 4"
    by (simp_all add: same_contents_def)
  have "array (mem (OCP_cartpoleExternalReference_eval_phix t x phix s)) phix 4 =
        array (mem (OCP_cartpoleExternalReference_eval_phix t x' phix' s')) phix' 4"
    unfolding OCP_cartpoleExternalReference_eval_phix_def Let_def
    by (rule exec_same_output [OF _ _ _ _ ap])
       (use o array_4D [OF e(1)] in
         \<open>simp_all add: upt_dims reads_only_def agree_on_def cells_def\<close>)
  then show "array (mem (OCP_cartpoleExternalReference_eval_phix t x phix s)) (fst (phix, 4)) (snd (phix, 4)) =
        array (mem (OCP_cartpoleExternalReference_eval_phix t x' phix' s')) (fst (phix', 4)) (snd (phix', 4))"
    by simp
qed

lemma OCP_cartpoleExternalReference_eval_hx_frame:
  fixes s :: cartpole_world
  shows "ocp (OCP_cartpoleExternalReference_eval_hx t x u lmd hx s) = ocp s"
    and "refs (OCP_cartpoleExternalReference_eval_hx t x u lmd hx s) = refs s"
    and "a \<notin> cells hx 4 \<Longrightarrow> mem (OCP_cartpoleExternalReference_eval_hx t x u lmd hx s) a = mem s a"
proof -
  show "ocp (OCP_cartpoleExternalReference_eval_hx t x u lmd hx s) = ocp s"
    by (simp add: OCP_cartpoleExternalReference_eval_hx_def Let_def)
  show "refs (OCP_cartpoleExternalReference_eval_hx t x u lmd hx s) = refs s"
    by (simp add: OCP_cartpoleExternalReference_eval_hx_def Let_def)
  show "mem (OCP_cartpoleExternalReference_eval_hx t x u lmd hx s) a = mem s a" if "a \<notin> cells hx 4"
    unfolding OCP_cartpoleExternalReference_eval_hx_def Let_def
    using that by (intro exec_frame_world) (simp add: cells_4)
qed

lemma OCP_cartpoleExternalReference_eval_hx_pure:
  "evaluator_pure (OCP_cartpoleExternalReference_eval_hx t x u lmd hx)
     [(x, 4), (u, 1), (lmd, 4)] (hx, 4)"
  unfolding evaluator_pure_def
proof (intro impI allI conjI)
  fix s :: cartpole_world
  assume "in_out [(x, 4), (u, 1), (lmd, 4)] (hx, 4)"
  then have ap: "apart x 4 hx 4" "apart u 1 hx 4" "apart lmd 4 hx 4"
    by (simp_all add: in_out_def)
  show "ocp (OCP_cartpoleExternalReference_eval_hx t x u lmd hx s) = ocp s"
    and "refs (OCP_cartpoleExternalReference_eval_hx t x u lmd hx s) = refs s"
    by (rule OCP_cartpoleExternalReference_eval_hx_frame)+
  have c1: "array (mem (OCP_cartpoleExternalReference_eval_hx t x u lmd hx s)) x 4 = array (mem s) x 4"
    by (rule frame_same_contents [OF _ ap(1)]) (simp add: OCP_cartpoleExternalReference_eval_hx_frame(3))
  have c2: "array (mem (OCP_cartpoleExternalReference_eval_hx t x u lmd hx s)) u 1 = array (mem s) u 1"
    by (rule frame_same_contents [OF _ ap(2)]) (simp add: OCP_cartpoleExternalReference_eval_hx_frame(3))
  have c3: "array (mem (OCP_cartpoleExternalReference_eval_hx t x u lmd hx s)) lmd 4 = array (mem s) lmd 4"
    by (rule frame_same_contents [OF _ ap(3)]) (simp add: OCP_cartpoleExternalReference_eval_hx_frame(3))
  note c = c1 c2 c3
  from c show "same_contents [(x, 4), (u, 1), (lmd, 4)] (mem (OCP_cartpoleExternalReference_eval_hx t x u lmd hx s))
          [(x, 4), (u, 1), (lmd, 4)] (mem s)"
    by (simp add: same_contents_def)
next
  fix s :: cartpole_world and a
  assume "a \<notin> cells (fst (hx, 4)) (snd (hx, 4))"
  then show "mem (OCP_cartpoleExternalReference_eval_hx t x u lmd hx s) a = mem s a"
    by (simp add: OCP_cartpoleExternalReference_eval_hx_frame(3))
qed

lemma OCP_cartpoleExternalReference_eval_hx_deterministic:
  "evaluator_deterministic
     (OCP_cartpoleExternalReference_eval_hx t x u lmd hx) [(x, 4), (u, 1), (lmd, 4)] (hx, 4)
     (OCP_cartpoleExternalReference_eval_hx t x' u' lmd' hx') [(x', 4), (u', 1), (lmd', 4)] (hx', 4)"
  unfolding evaluator_deterministic_def
proof (intro impI allI)
  fix s s' :: cartpole_world
  assume "in_out [(x, 4), (u, 1), (lmd, 4)] (hx, 4) \<and>
    in_out [(x', 4), (u', 1), (lmd', 4)] (hx', 4)"
  then have ap: "(cells x 4 \<union> cells u 1 \<union> cells lmd 4) \<inter> cells hx 4 = {}"
    "(cells x' 4 \<union> cells u' 1 \<union> cells lmd' 4) \<inter> cells hx' 4 = {}"
    by (simp_all add: in_out_def Int_Un_distrib2 apart_disjoint)
  assume "ocp s = ocp s' \<and>
    same_contents [(x, 4), (u, 1), (lmd, 4)] (mem s) [(x', 4), (u', 1), (lmd', 4)] (mem s')"
  then have o: "ocp s = ocp s'"
    and e: "array (mem s) x 4 = array (mem s') x' 4" "array (mem s) u 1 = array (mem s') u' 1" "array (mem s) lmd 4 = array (mem s') lmd' 4"
    by (simp_all add: same_contents_def)
  have "array (mem (OCP_cartpoleExternalReference_eval_hx t x u lmd hx s)) hx 4 =
        array (mem (OCP_cartpoleExternalReference_eval_hx t x' u' lmd' hx' s')) hx' 4"
    unfolding OCP_cartpoleExternalReference_eval_hx_def Let_def
    by (rule exec_same_output [OF _ _ _ _ ap])
       (use o array_4D [OF e(1)] array_1D [OF e(2)] array_4D [OF e(3)] in
         \<open>simp_all add: upt_dims reads_only_def agree_on_def cells_def\<close>)
  then show "array (mem (OCP_cartpoleExternalReference_eval_hx t x u lmd hx s)) (fst (hx, 4)) (snd (hx, 4)) =
        array (mem (OCP_cartpoleExternalReference_eval_hx t x' u' lmd' hx' s')) (fst (hx', 4)) (snd (hx', 4))"
    by simp
qed

lemma OCP_cartpoleExternalReference_eval_hu_frame:
  fixes s :: cartpole_world
  shows "ocp (OCP_cartpoleExternalReference_eval_hu t x u lmd hu s) = ocp s"
    and "refs (OCP_cartpoleExternalReference_eval_hu t x u lmd hu s) = refs s"
    and "a \<notin> cells hu 1 \<Longrightarrow> mem (OCP_cartpoleExternalReference_eval_hu t x u lmd hu s) a = mem s a"
proof -
  show "ocp (OCP_cartpoleExternalReference_eval_hu t x u lmd hu s) = ocp s"
    by (simp add: OCP_cartpoleExternalReference_eval_hu_def Let_def)
  show "refs (OCP_cartpoleExternalReference_eval_hu t x u lmd hu s) = refs s"
    by (simp add: OCP_cartpoleExternalReference_eval_hu_def Let_def)
  show "mem (OCP_cartpoleExternalReference_eval_hu t x u lmd hu s) a = mem s a" if "a \<notin> cells hu 1"
    unfolding OCP_cartpoleExternalReference_eval_hu_def Let_def
    using that by (intro exec_frame_world) (simp add: cells_def)
qed

lemma OCP_cartpoleExternalReference_eval_hu_pure:
  "evaluator_pure (OCP_cartpoleExternalReference_eval_hu t x u lmd hu)
     [(x, 4), (u, 1), (lmd, 4)] (hu, 1)"
  unfolding evaluator_pure_def
proof (intro impI allI conjI)
  fix s :: cartpole_world
  assume "in_out [(x, 4), (u, 1), (lmd, 4)] (hu, 1)"
  then have ap: "apart x 4 hu 1" "apart u 1 hu 1" "apart lmd 4 hu 1"
    by (simp_all add: in_out_def)
  show "ocp (OCP_cartpoleExternalReference_eval_hu t x u lmd hu s) = ocp s"
    and "refs (OCP_cartpoleExternalReference_eval_hu t x u lmd hu s) = refs s"
    by (rule OCP_cartpoleExternalReference_eval_hu_frame)+
  have c1: "array (mem (OCP_cartpoleExternalReference_eval_hu t x u lmd hu s)) x 4 = array (mem s) x 4"
    by (rule frame_same_contents [OF _ ap(1)]) (simp add: OCP_cartpoleExternalReference_eval_hu_frame(3))
  have c2: "array (mem (OCP_cartpoleExternalReference_eval_hu t x u lmd hu s)) u 1 = array (mem s) u 1"
    by (rule frame_same_contents [OF _ ap(2)]) (simp add: OCP_cartpoleExternalReference_eval_hu_frame(3))
  have c3: "array (mem (OCP_cartpoleExternalReference_eval_hu t x u lmd hu s)) lmd 4 = array (mem s) lmd 4"
    by (rule frame_same_contents [OF _ ap(3)]) (simp add: OCP_cartpoleExternalReference_eval_hu_frame(3))
  note c = c1 c2 c3
  from c show "same_contents [(x, 4), (u, 1), (lmd, 4)] (mem (OCP_cartpoleExternalReference_eval_hu t x u lmd hu s))
          [(x, 4), (u, 1), (lmd, 4)] (mem s)"
    by (simp add: same_contents_def)
next
  fix s :: cartpole_world and a
  assume "a \<notin> cells (fst (hu, 1)) (snd (hu, 1))"
  then show "mem (OCP_cartpoleExternalReference_eval_hu t x u lmd hu s) a = mem s a"
    by (simp add: OCP_cartpoleExternalReference_eval_hu_frame(3))
qed

lemma OCP_cartpoleExternalReference_eval_hu_deterministic:
  "evaluator_deterministic
     (OCP_cartpoleExternalReference_eval_hu t x u lmd hu) [(x, 4), (u, 1), (lmd, 4)] (hu, 1)
     (OCP_cartpoleExternalReference_eval_hu t x' u' lmd' hu') [(x', 4), (u', 1), (lmd', 4)] (hu', 1)"
  unfolding evaluator_deterministic_def
proof (intro impI allI)
  fix s s' :: cartpole_world
  assume "in_out [(x, 4), (u, 1), (lmd, 4)] (hu, 1) \<and>
    in_out [(x', 4), (u', 1), (lmd', 4)] (hu', 1)"
  then have ap: "(cells x 4 \<union> cells u 1 \<union> cells lmd 4) \<inter> cells hu 1 = {}"
    "(cells x' 4 \<union> cells u' 1 \<union> cells lmd' 4) \<inter> cells hu' 1 = {}"
    by (simp_all add: in_out_def Int_Un_distrib2 apart_disjoint)
  assume "ocp s = ocp s' \<and>
    same_contents [(x, 4), (u, 1), (lmd, 4)] (mem s) [(x', 4), (u', 1), (lmd', 4)] (mem s')"
  then have o: "ocp s = ocp s'"
    and e: "array (mem s) x 4 = array (mem s') x' 4" "array (mem s) u 1 = array (mem s') u' 1" "array (mem s) lmd 4 = array (mem s') lmd' 4"
    by (simp_all add: same_contents_def)
  have "array (mem (OCP_cartpoleExternalReference_eval_hu t x u lmd hu s)) hu 1 =
        array (mem (OCP_cartpoleExternalReference_eval_hu t x' u' lmd' hu' s')) hu' 1"
    unfolding OCP_cartpoleExternalReference_eval_hu_def Let_def
    by (rule exec_same_output [OF _ _ _ _ ap])
       (use o array_4D [OF e(1)] array_1D [OF e(2)] array_4D [OF e(3)] in
         \<open>simp_all add: upt_dims reads_only_def agree_on_def cells_def\<close>)
  then show "array (mem (OCP_cartpoleExternalReference_eval_hu t x u lmd hu s)) (fst (hu, 1)) (snd (hu, 1)) =
        array (mem (OCP_cartpoleExternalReference_eval_hu t x' u' lmd' hu' s')) (fst (hu', 1)) (snd (hu', 1))"
    by simp
qed

lemma OCP_hexacopter_eval_f_frame:
  fixes s :: hexacopter_world
  shows "ocp (OCP_hexacopter_eval_f t x u dx s) = ocp s"
    and "refs (OCP_hexacopter_eval_f t x u dx s) = refs s"
    and "a \<notin> cells dx 12 \<Longrightarrow> mem (OCP_hexacopter_eval_f t x u dx s) a = mem s a"
proof -
  show "ocp (OCP_hexacopter_eval_f t x u dx s) = ocp s"
    by (simp add: OCP_hexacopter_eval_f_def Let_def)
  show "refs (OCP_hexacopter_eval_f t x u dx s) = refs s"
    by (simp add: OCP_hexacopter_eval_f_def Let_def)
  show "mem (OCP_hexacopter_eval_f t x u dx s) a = mem s a" if "a \<notin> cells dx 12"
    unfolding OCP_hexacopter_eval_f_def Let_def
    using that by (intro exec_frame_world) (simp add: cells_12)
qed

lemma OCP_hexacopter_eval_f_pure:
  "evaluator_pure (OCP_hexacopter_eval_f t x u dx)
     [(x, 12), (u, 6)] (dx, 12)"
  unfolding evaluator_pure_def
proof (intro impI allI conjI)
  fix s :: hexacopter_world
  assume "in_out [(x, 12), (u, 6)] (dx, 12)"
  then have ap: "apart x 12 dx 12" "apart u 6 dx 12"
    by (simp_all add: in_out_def)
  show "ocp (OCP_hexacopter_eval_f t x u dx s) = ocp s"
    and "refs (OCP_hexacopter_eval_f t x u dx s) = refs s"
    by (rule OCP_hexacopter_eval_f_frame)+
  have c1: "array (mem (OCP_hexacopter_eval_f t x u dx s)) x 12 = array (mem s) x 12"
    by (rule frame_same_contents [OF _ ap(1)]) (simp add: OCP_hexacopter_eval_f_frame(3))
  have c2: "array (mem (OCP_hexacopter_eval_f t x u dx s)) u 6 = array (mem s) u 6"
    by (rule frame_same_contents [OF _ ap(2)]) (simp add: OCP_hexacopter_eval_f_frame(3))
  note c = c1 c2
  from c show "same_contents [(x, 12), (u, 6)] (mem (OCP_hexacopter_eval_f t x u dx s))
          [(x, 12), (u, 6)] (mem s)"
    by (simp add: same_contents_def)
next
  fix s :: hexacopter_world and a
  assume "a \<notin> cells (fst (dx, 12)) (snd (dx, 12))"
  then show "mem (OCP_hexacopter_eval_f t x u dx s) a = mem s a"
    by (simp add: OCP_hexacopter_eval_f_frame(3))
qed

lemma OCP_hexacopter_eval_f_deterministic:
  "evaluator_deterministic
     (OCP_hexacopter_eval_f t x u dx) [(x, 12), (u, 6)] (dx, 12)
     (OCP_hexacopter_eval_f t x' u' dx') [(x', 12), (u', 6)] (dx', 12)"
  unfolding evaluator_deterministic_def
proof (intro impI allI)
  fix s s' :: hexacopter_world
  assume "in_out [(x, 12), (u, 6)] (dx, 12) \<and>
    in_out [(x', 12), (u', 6)] (dx', 12)"
  then have ap: "(cells x 12 \<union> cells u 6) \<inter> cells dx 12 = {}"
    "(cells x' 12 \<union> cells u' 6) \<inter> cells dx' 12 = {}"
    by (simp_all add: in_out_def Int_Un_distrib2 apart_disjoint)
  assume "ocp s = ocp s' \<and>
    same_contents [(x, 12), (u, 6)] (mem s) [(x', 12), (u', 6)] (mem s')"
  then have o: "ocp s = ocp s'"
    and e: "array (mem s) x 12 = array (mem s') x' 12" "array (mem s) u 6 = array (mem s') u' 6"
    by (simp_all add: same_contents_def)
  have "array (mem (OCP_hexacopter_eval_f t x u dx s)) dx 12 =
        array (mem (OCP_hexacopter_eval_f t x' u' dx' s')) dx' 12"
    unfolding OCP_hexacopter_eval_f_def Let_def
    by (rule exec_same_output [OF _ _ _ _ ap])
       (use o array_12D [OF e(1)] array_6D [OF e(2)] in
         \<open>simp_all add: upt_dims reads_only_def agree_on_def cells_def\<close>)
  then show "array (mem (OCP_hexacopter_eval_f t x u dx s)) (fst (dx, 12)) (snd (dx, 12)) =
        array (mem (OCP_hexacopter_eval_f t x' u' dx' s')) (fst (dx', 12)) (snd (dx', 12))"
    by simp
qed

lemma OCP_hexacopter_eval_phix_frame:
  fixes s :: hexacopter_world
  shows "ocp (OCP_hexacopter_eval_phix t x phix s) = ocp s"
    and "refs (OCP_hexacopter_eval_phix t x phix s) = refs s"
    and "a \<notin> cells phix 12 \<Longrightarrow> mem (OCP_hexacopter_eval_phix t x phix s) a = mem s a"
proof -
  show "ocp (OCP_hexacopter_eval_phix t x phix s) = ocp s"
    by (simp add: OCP_hexacopter_eval_phix_def Let_def)
  show "refs (OCP_hexacopter_eval_phix t x phix s) = refs s"
    by (simp add: OCP_hexacopter_eval_phix_def Let_def)
  show "mem (OCP_hexacopter_eval_phix t x phix s) a = mem s a" if "a \<notin> cells phix 12"
    unfolding OCP_hexacopter_eval_phix_def Let_def
    using that by (intro exec_frame_world) (simp add: cells_12)
qed

lemma OCP_hexacopter_eval_phix_pure:
  "evaluator_pure (OCP_hexacopter_eval_phix t x phix)
     [(x, 12)] (phix, 12)"
  unfolding evaluator_pure_def
proof (intro impI allI conjI)
  fix s :: hexacopter_world
  assume "in_out [(x, 12)] (phix, 12)"
  then have ap: "apart x 12 phix 12"
    by (simp_all add: in_out_def)
  show "ocp (OCP_hexacopter_eval_phix t x phix s) = ocp s"
    and "refs (OCP_hexacopter_eval_phix t x phix s) = refs s"
    by (rule OCP_hexacopter_eval_phix_frame)+
  have c1: "array (mem (OCP_hexacopter_eval_phix t x phix s)) x 12 = array (mem s) x 12"
    by (rule frame_same_contents [OF _ ap(1)]) (simp add: OCP_hexacopter_eval_phix_frame(3))
  note c = c1
  from c show "same_contents [(x, 12)] (mem (OCP_hexacopter_eval_phix t x phix s))
          [(x, 12)] (mem s)"
    by (simp add: same_contents_def)
next
  fix s :: hexacopter_world and a
  assume "a \<notin> cells (fst (phix, 12)) (snd (phix, 12))"
  then show "mem (OCP_hexacopter_eval_phix t x phix s) a = mem s a"
    by (simp add: OCP_hexacopter_eval_phix_frame(3))
qed

lemma OCP_hexacopter_eval_phix_deterministic:
  "evaluator_deterministic
     (OCP_hexacopter_eval_phix t x phix) [(x, 12)] (phix, 12)
     (OCP_hexacopter_eval_phix t x' phix') [(x', 12)] (phix', 12)"
  unfolding evaluator_deterministic_def
proof (intro impI allI)
  fix s s' :: hexacopter_world
  assume "in_out [(x, 12)] (phix, 12) \<and>
    in_out [(x', 12)] (phix', 12)"
  then have ap: "(cells x 12) \<inter> cells phix 12 = {}"
    "(cells x' 12) \<inter> cells phix' 12 = {}"
    by (simp_all add: in_out_def Int_Un_distrib2 apart_disjoint)
  assume "ocp s = ocp s' \<and>
    same_contents [(x, 12)] (mem s) [(x', 12)] (mem s')"
  then have o: "ocp s = ocp s'"
    and e: "array (mem s) x 12 = array (mem s') x' 12"
    by (simp_all add: same_contents_def)
  have "array (mem (OCP_hexacopter_eval_phix t x phix s)) phix 12 =
        array (mem (OCP_hexacopter_eval_phix t x' phix' s')) phix' 12"
    unfolding OCP_hexacopter_eval_phix_def Let_def
    by (rule exec_same_output [OF _ _ _ _ ap])
       (use o array_12D [OF e(1)] in
         \<open>simp_all add: upt_dims reads_only_def agree_on_def cells_def\<close>)
  then show "array (mem (OCP_hexacopter_eval_phix t x phix s)) (fst (phix, 12)) (snd (phix, 12)) =
        array (mem (OCP_hexacopter_eval_phix t x' phix' s')) (fst (phix', 12)) (snd (phix', 12))"
    by simp
qed

lemma OCP_hexacopter_eval_hx_frame:
  fixes s :: hexacopter_world
  shows "ocp (OCP_hexacopter_eval_hx t x u lmd hx s) = ocp s"
    and "refs (OCP_hexacopter_eval_hx t x u lmd hx s) = refs s"
    and "a \<notin> cells hx 12 \<Longrightarrow> mem (OCP_hexacopter_eval_hx t x u lmd hx s) a = mem s a"
proof -
  show "ocp (OCP_hexacopter_eval_hx t x u lmd hx s) = ocp s"
    by (simp add: OCP_hexacopter_eval_hx_def Let_def)
  show "refs (OCP_hexacopter_eval_hx t x u lmd hx s) = refs s"
    by (simp add: OCP_hexacopter_eval_hx_def Let_def)
  show "mem (OCP_hexacopter_eval_hx t x u lmd hx s) a = mem s a" if "a \<notin> cells hx 12"
    unfolding OCP_hexacopter_eval_hx_def Let_def
    using that by (intro exec_frame_world) (simp add: cells_12)
qed

lemma OCP_hexacopter_eval_hx_pure:
  "evaluator_pure (OCP_hexacopter_eval_hx t x u lmd hx)
     [(x, 12), (u, 6), (lmd, 12)] (hx, 12)"
  unfolding evaluator_pure_def
proof (intro impI allI conjI)
  fix s :: hexacopter_world
  assume "in_out [(x, 12), (u, 6), (lmd, 12)] (hx, 12)"
  then have ap: "apart x 12 hx 12" "apart u 6 hx 12" "apart lmd 12 hx 12"
    by (simp_all add: in_out_def)
  show "ocp (OCP_hexacopter_eval_hx t x u lmd hx s) = ocp s"
    and "refs (OCP_hexacopter_eval_hx t x u lmd hx s) = refs s"
    by (rule OCP_hexacopter_eval_hx_frame)+
  have c1: "array (mem (OCP_hexacopter_eval_hx t x u lmd hx s)) x 12 = array (mem s) x 12"
    by (rule frame_same_contents [OF _ ap(1)]) (simp add: OCP_hexacopter_eval_hx_frame(3))
  have c2: "array (mem (OCP_hexacopter_eval_hx t x u lmd hx s)) u 6 = array (mem s) u 6"
    by (rule frame_same_contents [OF _ ap(2)]) (simp add: OCP_hexacopter_eval_hx_frame(3))
  have c3: "array (mem (OCP_hexacopter_eval_hx t x u lmd hx s)) lmd 12 = array (mem s) lmd 12"
    by (rule frame_same_contents [OF _ ap(3)]) (simp add: OCP_hexacopter_eval_hx_frame(3))
  note c = c1 c2 c3
  from c show "same_contents [(x, 12), (u, 6), (lmd, 12)] (mem (OCP_hexacopter_eval_hx t x u lmd hx s))
          [(x, 12), (u, 6), (lmd, 12)] (mem s)"
    by (simp add: same_contents_def)
next
  fix s :: hexacopter_world and a
  assume "a \<notin> cells (fst (hx, 12)) (snd (hx, 12))"
  then show "mem (OCP_hexacopter_eval_hx t x u lmd hx s) a = mem s a"
    by (simp add: OCP_hexacopter_eval_hx_frame(3))
qed

lemma OCP_hexacopter_eval_hx_deterministic:
  "evaluator_deterministic
     (OCP_hexacopter_eval_hx t x u lmd hx) [(x, 12), (u, 6), (lmd, 12)] (hx, 12)
     (OCP_hexacopter_eval_hx t x' u' lmd' hx') [(x', 12), (u', 6), (lmd', 12)] (hx', 12)"
  unfolding evaluator_deterministic_def
proof (intro impI allI)
  fix s s' :: hexacopter_world
  assume "in_out [(x, 12), (u, 6), (lmd, 12)] (hx, 12) \<and>
    in_out [(x', 12), (u', 6), (lmd', 12)] (hx', 12)"
  then have ap: "(cells x 12 \<union> cells u 6 \<union> cells lmd 12) \<inter> cells hx 12 = {}"
    "(cells x' 12 \<union> cells u' 6 \<union> cells lmd' 12) \<inter> cells hx' 12 = {}"
    by (simp_all add: in_out_def Int_Un_distrib2 apart_disjoint)
  assume "ocp s = ocp s' \<and>
    same_contents [(x, 12), (u, 6), (lmd, 12)] (mem s) [(x', 12), (u', 6), (lmd', 12)] (mem s')"
  then have o: "ocp s = ocp s'"
    and e: "array (mem s) x 12 = array (mem s') x' 12" "array (mem s) u 6 = array (mem s') u' 6" "array (mem s) lmd 12 = array (mem s') lmd' 12"
    by (simp_all add: same_contents_def)
  have "array (mem (OCP_hexacopter_eval_hx t x u lmd hx s)) hx 12 =
        array (mem (OCP_hexacopter_eval_hx t x' u' lmd' hx' s')) hx' 12"
    unfolding OCP_hexacopter_eval_hx_def Let_def
    by (rule exec_same_output [OF _ _ _ _ ap])
       (use o array_12D [OF e(1)] array_6D [OF e(2)] array_12D [OF e(3)] in
         \<open>simp_all add: upt_dims reads_only_def agree_on_def cells_def\<close>)
  then show "array (mem (OCP_hexacopter_eval_hx t x u lmd hx s)) (fst (hx, 12)) (snd (hx, 12)) =
        array (mem (OCP_hexacopter_eval_hx t x' u' lmd' hx' s')) (fst (hx', 12)) (snd (hx', 12))"
    by simp
qed

lemma OCP_hexacopter_eval_hu_frame:
  fixes s :: hexacopter_world
  shows "ocp (OCP_hexacopter_eval_hu t x u lmd hu s) = ocp s"
    and "refs (OCP_hexacopter_eval_hu t x u lmd hu s) = refs s"
    and "a \<notin> cells hu 6 \<Longrightarrow> mem (OCP_hexacopter_eval_hu t x u lmd hu s) a = mem s a"
proof -
  show "ocp (OCP_hexacopter_eval_hu t x u lmd hu s) = ocp s"
    by (simp add: OCP_hexacopter_eval_hu_def Let_def)
  show "refs (OCP_hexacopter_eval_hu t x u lmd hu s) = refs s"
    by (simp add: OCP_hexacopter_eval_hu_def Let_def)
  show "mem (OCP_hexacopter_eval_hu t x u lmd hu s) a = mem s a" if "a \<notin> cells hu 6"
    unfolding OCP_hexacopter_eval_hu_def Let_def
    using that by (intro exec_frame_world) (simp add: cells_6)
qed

lemma OCP_hexacopter_eval_hu_pure:
  "evaluator_pure (OCP_hexacopter_eval_hu t x u lmd hu)
     [(x, 12), (u, 6), (lmd, 12)] (hu, 6)"
  unfolding evaluator_pure_def
proof (intro impI allI conjI)
  fix s :: hexacopter_world
  assume "in_out [(x, 12), (u, 6), (lmd, 12)] (hu, 6)"
  then have ap: "apart x 12 hu 6" "apart u 6 hu 6" "apart lmd 12 hu 6"
    by (simp_all add: in_out_def)
  show "ocp (OCP_hexacopter_eval_hu t x u lmd hu s) = ocp s"
    and "refs (OCP_hexacopter_eval_hu t x u lmd hu s) = refs s"
    by (rule OCP_hexacopter_eval_hu_frame)+
  have c1: "array (mem (OCP_hexacopter_eval_hu t x u lmd hu s)) x 12 = array (mem s) x 12"
    by (rule frame_same_contents [OF _ ap(1)]) (simp add: OCP_hexacopter_eval_hu_frame(3))
  have c2: "array (mem (OCP_hexacopter_eval_hu t x u lmd hu s)) u 6 = array (mem s) u 6"
    by (rule frame_same_contents [OF _ ap(2)]) (simp add: OCP_hexacopter_eval_hu_frame(3))
  have c3: "array (mem (OCP_hexacopter_eval_hu t x u lmd hu s)) lmd 12 = array (mem s) lmd 12"
    by (rule frame_same_contents [OF _ ap(3)]) (simp add: OCP_hexacopter_eval_hu_frame(3))
  note c = c1 c2 c3
  from c show "same_contents [(x, 12), (u, 6), (lmd, 12)] (mem (OCP_hexacopter_eval_hu t x u lmd hu s))
          [(x, 12), (u, 6), (lmd, 12)] (mem s)"
    by (simp add: same_contents_def)
next
  fix s :: hexacopter_world and a
  assume "a \<notin> cells (fst (hu, 6)) (snd (hu, 6))"
  then show "mem (OCP_hexacopter_eval_hu t x u lmd hu s) a = mem s a"
    by (simp add: OCP_hexacopter_eval_hu_frame(3))
qed

lemma OCP_hexacopter_eval_hu_deterministic:
  "evaluator_deterministic
     (OCP_hexacopter_eval_hu t x u lmd hu) [(x, 12), (u, 6), (lmd, 12)] (hu, 6)
     (OCP_hexacopter_eval_hu t x' u' lmd' hu') [(x', 12), (u', 6), (lmd', 12)] (hu', 6)"
  unfolding evaluator_deterministic_def
proof (intro impI allI)
  fix s s' :: hexacopter_world
  assume "in_out [(x, 12), (u, 6), (lmd, 12)] (hu, 6) \<and>
    in_out [(x', 12), (u', 6), (lmd', 12)] (hu', 6)"
  then have ap: "(cells x 12 \<union> cells u 6 \<union> cells lmd 12) \<inter> cells hu 6 = {}"
    "(cells x' 12 \<union> cells u' 6 \<union> cells lmd' 12) \<inter> cells hu' 6 = {}"
    by (simp_all add: in_out_def Int_Un_distrib2 apart_disjoint)
  assume "ocp s = ocp s' \<and>
    same_contents [(x, 12), (u, 6), (lmd, 12)] (mem s) [(x', 12), (u', 6), (lmd', 12)] (mem s')"
  then have o: "ocp s = ocp s'"
    and e: "array (mem s) x 12 = array (mem s') x' 12" "array (mem s) u 6 = array (mem s') u' 6" "array (mem s) lmd 12 = array (mem s') lmd' 12"
    by (simp_all add: same_contents_def)
  have "array (mem (OCP_hexacopter_eval_hu t x u lmd hu s)) hu 6 =
        array (mem (OCP_hexacopter_eval_hu t x' u' lmd' hu' s')) hu' 6"
    unfolding OCP_hexacopter_eval_hu_def Let_def
    by (rule exec_same_output [OF _ _ _ _ ap])
       (use o array_12D [OF e(1)] array_6D [OF e(2)] array_12D [OF e(3)] in
         \<open>simp_all add: upt_dims reads_only_def agree_on_def cells_def\<close>)
  then show "array (mem (OCP_hexacopter_eval_hu t x u lmd hu s)) (fst (hu, 6)) (snd (hu, 6)) =
        array (mem (OCP_hexacopter_eval_hu t x' u' lmd' hu' s')) (fst (hu', 6)) (snd (hu', 6))"
    by simp
qed

section \<open>The size-checked overloads of the hexacopter OCP\<close>

lemma to_string_12: "to_string 12 = ''12''"
  by (simp add: to_string.simps digit_def)

lemma to_string_6: "to_string 6 = ''6''"
  by (simp add: to_string.simps digit_def)

lemmas hexacopter_dims =
  OCP_hexacopter_nx_def OCP_hexacopter_nu_def OCP_hexacopter_nc_def OCP_hexacopter_nuc_def

lemmas cartpole_dims =
  OCP_cartpoleExternalReference_nx_def OCP_cartpoleExternalReference_nu_def
  OCP_cartpoleExternalReference_nc_def OCP_cartpoleExternalReference_nuc_def

lemmas example_vecs = vec_x_def vec_u_def vec_lmd_def vec_out12_def vec_out6_def

text \<open>
  C2 holds of the documentation and fails on the code: with every argument in its
  documented size (\<open>x\<close>, \<open>lmd\<close> and \<open>hx\<close> of size \<open>nx = 12\<close>, \<open>uc\<close> of size \<open>nuc = 6\<close>) the
  size-checked \<open>eval_hx\<close> throws \<open>std::invalid_argument\<close>, with a message that asks for the
  size \<open>hx\<close> has, and writes nothing.
\<close>

theorem OCP_hexacopter_eval_hx_checked_rejects_documented_sizes:
  "OCP_hexacopter_eval_hx_checked 0 vec_x vec_u vec_lmd vec_out12 hexacopter_world0 =
     Inl (invalid_argument ''[OCP]: hx.size() must be 12'', hexacopter_world0)"
  by (simp add: OCP_hexacopter_eval_hx_checked_def example_vecs hexacopter_dims to_string_12)

text \<open>
  The check that \<open>eval_hx\<close> makes: the call returns exactly when \<open>x\<close> and \<open>lmd\<close> have size
  \<open>nx\<close> and both \<open>uc\<close> and \<open>hx\<close> have size \<open>nuc\<close>. An \<open>hx\<close> of six cells is accepted, and the
  raw evaluator then assigns \<open>hx[0]\<close> to \<open>hx[11]\<close>.
\<close>

lemma OCP_hexacopter_eval_hx_checked_returns_iff:
  "(\<exists>s'. OCP_hexacopter_eval_hx_checked t x uc lmd hx s = Inr s') \<longleftrightarrow>
     size_v x = OCP_hexacopter_nx \<and> size_v uc = OCP_hexacopter_nuc \<and>
     size_v lmd = OCP_hexacopter_nx \<and> size_v hx = OCP_hexacopter_nuc"
  by (auto simp: OCP_hexacopter_eval_hx_checked_def)

lemma OCP_hexacopter_eval_hx_checked_short_output:
  "OCP_hexacopter_eval_hx_checked 0 vec_x vec_u vec_lmd vec_out6 hexacopter_world0 =
     Inr (OCP_hexacopter_eval_hx 0 0 12 18 42 hexacopter_world0)"
  by (simp add: OCP_hexacopter_eval_hx_checked_def example_vecs hexacopter_dims)

text \<open>
  C5. With \<open>x\<close>, \<open>u\<close> and \<open>dx\<close> of sizes \<open>nx\<close>, \<open>nu\<close> and \<open>nx\<close> the size-checked \<open>eval_f\<close> does
  not throw and leaves the world that the raw-pointer \<open>eval_f\<close> leaves on the same time
  and the same arrays; with any other size it throws \<open>std::invalid_argument\<close> and the
  world, \<open>dx\<close> included, is as before the call.
\<close>

theorem OCP_hexacopter_eval_f_checked_refines:
  "(size_v x = OCP_hexacopter_nx \<and> size_v u = OCP_hexacopter_nu \<and>
    size_v dx = OCP_hexacopter_nx \<longrightarrow>
      OCP_hexacopter_eval_f_checked t x u dx s =
        Inr (OCP_hexacopter_eval_f t (data x) (data u) (data dx) s)) \<and>
   (size_v x \<noteq> OCP_hexacopter_nx \<or> size_v u \<noteq> OCP_hexacopter_nu \<or>
    size_v dx \<noteq> OCP_hexacopter_nx \<longrightarrow>
      (\<exists>msg. OCP_hexacopter_eval_f_checked t x u dx s = Inl (invalid_argument msg, s)))"
  by (simp add: OCP_hexacopter_eval_f_checked_def)

theorem OCP_hexacopter_eval_f_checked_refines_witness:
  "size_v vec_x = OCP_hexacopter_nx \<and> size_v vec_u = OCP_hexacopter_nu \<and>
   size_v vec_out12 = OCP_hexacopter_nx \<and>
   OCP_hexacopter_eval_f_checked 0 vec_x vec_u vec_out12 hexacopter_world1 =
     Inr (OCP_hexacopter_eval_f 0 0 12 30 hexacopter_world1) \<and>
   mem (OCP_hexacopter_eval_f 0 0 12 30 hexacopter_world1) 30 = 1 \<and>
   size_v vec_out6 \<noteq> OCP_hexacopter_nx \<and>
   (\<exists>msg. OCP_hexacopter_eval_f_checked 0 vec_x vec_u vec_out6 hexacopter_world1 =
            Inl (invalid_argument msg, hexacopter_world1))"
proof -
  have sizes: "size_v vec_x = OCP_hexacopter_nx" "size_v vec_u = OCP_hexacopter_nu"
    "size_v vec_out12 = OCP_hexacopter_nx" "size_v vec_out6 \<noteq> OCP_hexacopter_nx"
    by (simp_all add: example_vecs hexacopter_dims)
  have "OCP_hexacopter_eval_f_checked 0 vec_x vec_u vec_out12 hexacopter_world1 =
     Inr (OCP_hexacopter_eval_f 0 (data vec_x) (data vec_u) (data vec_out12) hexacopter_world1)"
    using OCP_hexacopter_eval_f_checked_refines
      [of vec_x vec_u vec_out12 0 hexacopter_world1] sizes by simp
  then have ok: "OCP_hexacopter_eval_f_checked 0 vec_x vec_u vec_out12 hexacopter_world1 =
     Inr (OCP_hexacopter_eval_f 0 0 12 30 hexacopter_world1)"
    by (simp add: example_vecs)
  have thrown: "\<exists>msg. OCP_hexacopter_eval_f_checked 0 vec_x vec_u vec_out6 hexacopter_world1 =
            Inl (invalid_argument msg, hexacopter_world1)"
    using OCP_hexacopter_eval_f_checked_refines
      [of vec_x vec_u vec_out6 0 hexacopter_world1] sizes by simp
  have "mem (OCP_hexacopter_eval_f 0 0 12 30 hexacopter_world1) 30 = 1"
    by (simp add: OCP_hexacopter_eval_f_def hexacopter_world1_def Let_def exec.simps
        zero_memory_def)
  with sizes ok thrown show ?thesis
    by simp
qed

section \<open>\<open>synchronize()\<close> of the cartpole OCP\<close>

lemma cartpole_world1_wf: "OCP_cartpoleExternalReference_wf cartpole_world1"
  by (simp add: OCP_cartpoleExternalReference_wf_def cartpole_world1_def
      OCP_cartpoleExternalReference_init_def)

lemma cartpole_world0_wf: "OCP_cartpoleExternalReference_wf cartpole_world0"
  by (simp add: OCP_cartpoleExternalReference_wf_def cartpole_world0_def
      OCP_cartpoleExternalReference_init_def)

text \<open>
  C6. In every cartpole world \<open>synchronize()\<close> returns, and changes at most \<open>x_ref[0]\<close>:
  with a non-null \<open>external_reference\<close> the new \<open>x_ref[0]\<close> is the \<open>cart_position\<close> of the
  object pointed to, with a null one \<open>x_ref[0]\<close> is as before, and in both cases
  \<open>x_ref[1]\<close> to \<open>x_ref[3]\<close>, \<open>m_c\<close>, \<open>m_p\<close>, \<open>l\<close>, \<open>g\<close>, \<open>q\<close>, \<open>q_terminal\<close>, \<open>r\<close>, \<open>umin\<close>,
  \<open>umax\<close>, \<open>dummy_weight\<close> and \<open>external_reference\<close> itself are unchanged, as are the
  object pointed to and the memory of the arrays. (\<open>ubound_indices\<close> is a compile-time
  constant, not part of the state.)
\<close>

theorem OCP_cartpoleExternalReference_synchronize_frame:
  assumes "OCP_cartpoleExternalReference_wf s"
  shows "\<exists>s'. OCP_cartpoleExternalReference_synchronize s = Some s' \<and>
    (\<forall>p e. external_reference (ocp s) = Some p \<and> refs s p = Some e \<longrightarrow>
           x_ref (ocp s') ! 0 = cart_position e) \<and>
    (external_reference (ocp s) = None \<longrightarrow> x_ref (ocp s') ! 0 = x_ref (ocp s) ! 0) \<and>
    length (x_ref (ocp s')) = length (x_ref (ocp s)) \<and>
    x_ref (ocp s') ! 1 = x_ref (ocp s) ! 1 \<and>
    x_ref (ocp s') ! 2 = x_ref (ocp s) ! 2 \<and>
    x_ref (ocp s') ! 3 = x_ref (ocp s) ! 3 \<and>
    m_c (ocp s') = m_c (ocp s) \<and>
    m_p (ocp s') = m_p (ocp s) \<and>
    OCP_cartpoleExternalReference.l (ocp s') = OCP_cartpoleExternalReference.l (ocp s) \<and>
    OCP_cartpoleExternalReference.g (ocp s') = OCP_cartpoleExternalReference.g (ocp s) \<and>
    OCP_cartpoleExternalReference.q (ocp s') = OCP_cartpoleExternalReference.q (ocp s) \<and>
    OCP_cartpoleExternalReference.q_terminal (ocp s') =
      OCP_cartpoleExternalReference.q_terminal (ocp s) \<and>
    OCP_cartpoleExternalReference.r (ocp s') = OCP_cartpoleExternalReference.r (ocp s) \<and>
    OCP_cartpoleExternalReference.umin (ocp s') = OCP_cartpoleExternalReference.umin (ocp s) \<and>
    OCP_cartpoleExternalReference.umax (ocp s') = OCP_cartpoleExternalReference.umax (ocp s) \<and>
    OCP_cartpoleExternalReference.dummy_weight (ocp s') =
      OCP_cartpoleExternalReference.dummy_weight (ocp s) \<and>
    external_reference (ocp s') = external_reference (ocp s) \<and>
    refs s' = refs s \<and> mem s' = mem s"
proof (cases "external_reference (ocp s)")
  case None
  then show ?thesis
    by (simp add: OCP_cartpoleExternalReference_synchronize_def)
next
  case (Some p)
  with assms obtain e where e: "refs s p = Some e"
    by (auto simp: OCP_cartpoleExternalReference_wf_def)
  from assms have "length (x_ref (ocp s)) = 4"
    by (simp add: OCP_cartpoleExternalReference_wf_def)
  with Some e show ?thesis
    by (simp add: OCP_cartpoleExternalReference_synchronize_def)
qed

theorem OCP_cartpoleExternalReference_synchronize_frame_witness:
  "OCP_cartpoleExternalReference_wf cartpole_world1 \<and>
   external_reference (ocp cartpole_world1) = Some 7 \<and>
   refs cartpole_world1 7 = Some \<lparr>cart_position = 3\<rparr> \<and>
   x_ref (ocp cartpole_world1) = [0, pi, 0, 0] \<and>
   (\<exists>s'. OCP_cartpoleExternalReference_synchronize cartpole_world1 = Some s' \<and>
         x_ref (ocp s') ! 0 = 3 \<and> x_ref (ocp s') ! 1 = pi \<and> m_c (ocp s') = 2 \<and>
         external_reference (ocp s') = Some 7)"
proof -
  have f: "external_reference (ocp cartpole_world1) = Some 7"
    "refs cartpole_world1 7 = Some \<lparr>cart_position = 3\<rparr>"
    "x_ref (ocp cartpole_world1) = [0, pi, 0, 0]" "m_c (ocp cartpole_world1) = 2"
    by (simp_all add: cartpole_world1_def OCP_cartpoleExternalReference_init_def)
  obtain s' where s': "OCP_cartpoleExternalReference_synchronize cartpole_world1 = Some s'"
    "\<forall>p e. external_reference (ocp cartpole_world1) = Some p \<and> refs cartpole_world1 p = Some e
       \<longrightarrow> x_ref (ocp s') ! 0 = cart_position e"
    "x_ref (ocp s') ! 1 = x_ref (ocp cartpole_world1) ! 1"
    "m_c (ocp s') = m_c (ocp cartpole_world1)"
    "external_reference (ocp s') = external_reference (ocp cartpole_world1)"
    using OCP_cartpoleExternalReference_synchronize_frame [OF cartpole_world1_wf] by blast
  from s'(2) f(1,2) have "x_ref (ocp s') ! 0 = 3"
    by fastforce
  with s' f cartpole_world1_wf show ?thesis
    by simp
qed

text \<open>
  C9. The \<open>external_reference\<close> of a freshly built OCP is null, and with a null
  \<open>external_reference\<close> \<open>synchronize()\<close> returns the world it was given: nothing is
  dereferenced (the call returns whatever the store of \<open>ExternalReference\<close> objects holds,
  even nothing), and neither the OCP object nor anything else changes.
\<close>

theorem OCP_cartpoleExternalReference_synchronize_null:
  "external_reference OCP_cartpoleExternalReference_init = None \<and>
   (\<forall>s. external_reference (ocp s) = None \<longrightarrow>
        OCP_cartpoleExternalReference_synchronize s = Some s)"
  by (simp add: OCP_cartpoleExternalReference_init_def
      OCP_cartpoleExternalReference_synchronize_def)

theorem OCP_cartpoleExternalReference_synchronize_null_witness:
  "external_reference (ocp cartpole_world0) = None \<and> refs cartpole_world0 = Map.empty \<and>
   OCP_cartpoleExternalReference_synchronize cartpole_world0 = Some cartpole_world0"
proof -
  have n: "external_reference (ocp cartpole_world0) = None" "refs cartpole_world0 = Map.empty"
    using OCP_cartpoleExternalReference_synchronize_null
    by (simp_all add: cartpole_world0_def)
  with OCP_cartpoleExternalReference_synchronize_null show ?thesis
    by blast
qed

section \<open>Purity of the evaluators\<close>

lemma OCP_hexacopter_eval_f_checked_as:
  "checked_as (OCP_hexacopter_eval_f_checked t x u dx)
     (OCP_hexacopter_eval_f t (data x) (data u) (data dx))"
  unfolding checked_as_def OCP_hexacopter_eval_f_checked_def
  by (cases "size_v x = OCP_hexacopter_nx"; cases "size_v u = OCP_hexacopter_nu";
      cases "size_v dx = OCP_hexacopter_nx"; simp)

lemma OCP_hexacopter_eval_phix_checked_as:
  "checked_as (OCP_hexacopter_eval_phix_checked t x phix)
     (OCP_hexacopter_eval_phix t (data x) (data phix))"
  unfolding checked_as_def OCP_hexacopter_eval_phix_checked_def
  by (cases "size_v x = OCP_hexacopter_nx"; cases "size_v phix = OCP_hexacopter_nx"; simp)

lemma OCP_hexacopter_eval_hx_checked_as:
  "checked_as (OCP_hexacopter_eval_hx_checked t x uc lmd hx)
     (OCP_hexacopter_eval_hx t (data x) (data uc) (data lmd) (data hx))"
  unfolding checked_as_def OCP_hexacopter_eval_hx_checked_def
  by (cases "size_v x = OCP_hexacopter_nx"; cases "size_v uc = OCP_hexacopter_nuc";
      cases "size_v lmd = OCP_hexacopter_nx"; cases "size_v hx = OCP_hexacopter_nuc"; simp)

lemma OCP_hexacopter_eval_hu_checked_as:
  "checked_as (OCP_hexacopter_eval_hu_checked t x uc lmd hu)
     (OCP_hexacopter_eval_hu t (data x) (data uc) (data lmd) (data hu))"
  unfolding checked_as_def OCP_hexacopter_eval_hu_checked_def
  by (cases "size_v x = OCP_hexacopter_nx"; cases "size_v uc = OCP_hexacopter_nuc";
      cases "size_v lmd = OCP_hexacopter_nx"; cases "size_v hu = OCP_hexacopter_nuc"; simp)

text \<open>
  C8. The evaluators \<open>eval_f\<close>, \<open>eval_phix\<close>, \<open>eval_hx\<close> and \<open>eval_hu\<close> of the two OCPs, called as
  documented, with input arrays and an output array apart from them, each of its
  documented length, are pure and deterministic. No call changes a field of the OCP or the
  contents of an input array (nor any memory cell outside its output array). Two calls at
  the same time \<open>t\<close>, from worlds with the same OCP fields and the same contents of the
  input arrays, leave the same contents in their output arrays, wherever the arrays lie
  and whatever the output arrays held before. On vectors of the documented sizes a
  size-checked overload of the hexacopter either throws, from every world the same
  exception and changing nothing, or is the raw-pointer call on the arrays of its vectors.
\<close>

theorem evaluators_pure:
  "evaluator_pure (OCP_cartpoleExternalReference_eval_f t x u dx)
     [(x, OCP_cartpoleExternalReference_nx), (u, OCP_cartpoleExternalReference_nu)] (dx, OCP_cartpoleExternalReference_nx) \<and>
   evaluator_deterministic
     (OCP_cartpoleExternalReference_eval_f t x u dx)
     [(x, OCP_cartpoleExternalReference_nx), (u, OCP_cartpoleExternalReference_nu)] (dx, OCP_cartpoleExternalReference_nx)
     (OCP_cartpoleExternalReference_eval_f t x' u' dx')
     [(x', OCP_cartpoleExternalReference_nx), (u', OCP_cartpoleExternalReference_nu)] (dx', OCP_cartpoleExternalReference_nx) \<and>
   evaluator_pure (OCP_cartpoleExternalReference_eval_phix t x phix)
     [(x, OCP_cartpoleExternalReference_nx)] (phix, OCP_cartpoleExternalReference_nx) \<and>
   evaluator_deterministic
     (OCP_cartpoleExternalReference_eval_phix t x phix)
     [(x, OCP_cartpoleExternalReference_nx)] (phix, OCP_cartpoleExternalReference_nx)
     (OCP_cartpoleExternalReference_eval_phix t x' phix')
     [(x', OCP_cartpoleExternalReference_nx)] (phix', OCP_cartpoleExternalReference_nx) \<and>
   evaluator_pure (OCP_cartpoleExternalReference_eval_hx t x u lmd hx)
     [(x, OCP_cartpoleExternalReference_nx), (u, OCP_cartpoleExternalReference_nuc), (lmd, OCP_cartpoleExternalReference_nx)] (hx, OCP_cartpoleExternalReference_nx) \<and>
   evaluator_deterministic
     (OCP_cartpoleExternalReference_eval_hx t x u lmd hx)
     [(x, OCP_cartpoleExternalReference_nx), (u, OCP_cartpoleExternalReference_nuc), (lmd, OCP_cartpoleExternalReference_nx)] (hx, OCP_cartpoleExternalReference_nx)
     (OCP_cartpoleExternalReference_eval_hx t x' u' lmd' hx')
     [(x', OCP_cartpoleExternalReference_nx), (u', OCP_cartpoleExternalReference_nuc), (lmd', OCP_cartpoleExternalReference_nx)] (hx', OCP_cartpoleExternalReference_nx) \<and>
   evaluator_pure (OCP_cartpoleExternalReference_eval_hu t x u lmd hu)
     [(x, OCP_cartpoleExternalReference_nx), (u, OCP_cartpoleExternalReference_nuc), (lmd, OCP_cartpoleExternalReference_nx)] (hu, OCP_cartpoleExternalReference_nuc) \<and>
   evaluator_deterministic
     (OCP_cartpoleExternalReference_eval_hu t x u lmd hu)
     [(x, OCP_cartpoleExternalReference_nx), (u, OCP_cartpoleExternalReference_nuc), (lmd, OCP_cartpoleExternalReference_nx)] (hu, OCP_cartpoleExternalReference_nuc)
     (OCP_cartpoleExternalReference_eval_hu t x' u' lmd' hu')
     [(x', OCP_cartpoleExternalReference_nx), (u', OCP_cartpoleExternalReference_nuc), (lmd', OCP_cartpoleExternalReference_nx)] (hu', OCP_cartpoleExternalReference_nuc) \<and>
   evaluator_pure (OCP_hexacopter_eval_f t x u dx)
     [(x, OCP_hexacopter_nx), (u, OCP_hexacopter_nu)] (dx, OCP_hexacopter_nx) \<and>
   evaluator_deterministic
     (OCP_hexacopter_eval_f t x u dx)
     [(x, OCP_hexacopter_nx), (u, OCP_hexacopter_nu)] (dx, OCP_hexacopter_nx)
     (OCP_hexacopter_eval_f t x' u' dx')
     [(x', OCP_hexacopter_nx), (u', OCP_hexacopter_nu)] (dx', OCP_hexacopter_nx) \<and>
   evaluator_pure (OCP_hexacopter_eval_phix t x phix)
     [(x, OCP_hexacopter_nx)] (phix, OCP_hexacopter_nx) \<and>
   evaluator_deterministic
     (OCP_hexacopter_eval_phix t x phix)
     [(x, OCP_hexacopter_nx)] (phix, OCP_hexacopter_nx)
     (OCP_hexacopter_eval_phix t x' phix')
     [(x', OCP_hexacopter_nx)] (phix', OCP_hexacopter_nx) \<and>
   evaluator_pure (OCP_hexacopter_eval_hx t x u lmd hx)
     [(x, OCP_hexacopter_nx), (u, OCP_hexacopter_nuc), (lmd, OCP_hexacopter_nx)] (hx, OCP_hexacopter_nx) \<and>
   evaluator_deterministic
     (OCP_hexacopter_eval_hx t x u lmd hx)
     [(x, OCP_hexacopter_nx), (u, OCP_hexacopter_nuc), (lmd, OCP_hexacopter_nx)] (hx, OCP_hexacopter_nx)
     (OCP_hexacopter_eval_hx t x' u' lmd' hx')
     [(x', OCP_hexacopter_nx), (u', OCP_hexacopter_nuc), (lmd', OCP_hexacopter_nx)] (hx', OCP_hexacopter_nx) \<and>
   evaluator_pure (OCP_hexacopter_eval_hu t x u lmd hu)
     [(x, OCP_hexacopter_nx), (u, OCP_hexacopter_nuc), (lmd, OCP_hexacopter_nx)] (hu, OCP_hexacopter_nuc) \<and>
   evaluator_deterministic
     (OCP_hexacopter_eval_hu t x u lmd hu)
     [(x, OCP_hexacopter_nx), (u, OCP_hexacopter_nuc), (lmd, OCP_hexacopter_nx)] (hu, OCP_hexacopter_nuc)
     (OCP_hexacopter_eval_hu t x' u' lmd' hu')
     [(x', OCP_hexacopter_nx), (u', OCP_hexacopter_nuc), (lmd', OCP_hexacopter_nx)] (hu', OCP_hexacopter_nuc) \<and>
   (size_v vx = OCP_hexacopter_nx \<and> size_v vu = OCP_hexacopter_nu \<and>
    size_v vdx = OCP_hexacopter_nx \<longrightarrow>
      checked_as (OCP_hexacopter_eval_f_checked t vx vu vdx)
        (OCP_hexacopter_eval_f t (data vx) (data vu) (data vdx))) \<and>
   (size_v vx = OCP_hexacopter_nx \<and> size_v vphix = OCP_hexacopter_nx \<longrightarrow>
      checked_as (OCP_hexacopter_eval_phix_checked t vx vphix)
        (OCP_hexacopter_eval_phix t (data vx) (data vphix))) \<and>
   (size_v vx = OCP_hexacopter_nx \<and> size_v vuc = OCP_hexacopter_nuc \<and>
    size_v vlmd = OCP_hexacopter_nx \<and> size_v vhx = OCP_hexacopter_nx \<longrightarrow>
      checked_as (OCP_hexacopter_eval_hx_checked t vx vuc vlmd vhx)
        (OCP_hexacopter_eval_hx t (data vx) (data vuc) (data vlmd) (data vhx))) \<and>
   (size_v vx = OCP_hexacopter_nx \<and> size_v vuc = OCP_hexacopter_nuc \<and>
    size_v vlmd = OCP_hexacopter_nx \<and> size_v vhu = OCP_hexacopter_nuc \<longrightarrow>
      checked_as (OCP_hexacopter_eval_hu_checked t vx vuc vlmd vhu)
        (OCP_hexacopter_eval_hu t (data vx) (data vuc) (data vlmd) (data vhu)))"
proof -
  have n: "OCP_cartpoleExternalReference_nx = 4" "OCP_cartpoleExternalReference_nu = 1"
    "OCP_cartpoleExternalReference_nuc = 1" "OCP_hexacopter_nx = 12" "OCP_hexacopter_nu = 6"
    "OCP_hexacopter_nuc = 6"
    by (simp_all add: cartpole_dims hexacopter_dims)
  show ?thesis
    unfolding n
    by (intro conjI impI OCP_cartpoleExternalReference_eval_f_pure OCP_cartpoleExternalReference_eval_f_deterministic OCP_cartpoleExternalReference_eval_phix_pure OCP_cartpoleExternalReference_eval_phix_deterministic OCP_cartpoleExternalReference_eval_hx_pure OCP_cartpoleExternalReference_eval_hx_deterministic OCP_cartpoleExternalReference_eval_hu_pure OCP_cartpoleExternalReference_eval_hu_deterministic OCP_hexacopter_eval_f_pure OCP_hexacopter_eval_f_deterministic OCP_hexacopter_eval_phix_pure OCP_hexacopter_eval_phix_deterministic OCP_hexacopter_eval_hx_pure OCP_hexacopter_eval_hx_deterministic OCP_hexacopter_eval_hu_pure OCP_hexacopter_eval_hu_deterministic
        OCP_hexacopter_eval_f_checked_as OCP_hexacopter_eval_phix_checked_as
        OCP_hexacopter_eval_hx_checked_as OCP_hexacopter_eval_hu_checked_as)
qed

theorem evaluators_pure_witness:
  "in_out [(0, 12), (12, 6)] (30, 12) \<and> in_out [(100, 12), (112, 6)] (130, 12) \<and>
   ocp hexacopter_world1 = ocp hexacopter_world2 \<and>
   same_contents [(0, 12), (12, 6)] (mem hexacopter_world1)
     [(100, 12), (112, 6)] (mem hexacopter_world2) \<and>
   array (mem hexacopter_world1) 30 12 \<noteq> array (mem hexacopter_world2) 130 12 \<and>
   array (mem (OCP_hexacopter_eval_f 0 0 12 30 hexacopter_world1)) 30 12 =
     array (mem (OCP_hexacopter_eval_f 0 100 112 130 hexacopter_world2)) 130 12 \<and>
   ocp (OCP_hexacopter_eval_f 0 0 12 30 hexacopter_world1) = ocp hexacopter_world1 \<and>
   same_contents [(0, 12), (12, 6)] (mem (OCP_hexacopter_eval_f 0 0 12 30 hexacopter_world1))
     [(0, 12), (12, 6)] (mem hexacopter_world1) \<and>
   mem (OCP_hexacopter_eval_f 0 0 12 30 hexacopter_world1) 50 = mem hexacopter_world1 50 \<and>
   size_v vec_x = OCP_hexacopter_nx \<and> size_v vec_u = OCP_hexacopter_nu \<and>
   size_v vec_out12 = OCP_hexacopter_nx \<and>
   ((\<exists>e. OCP_hexacopter_eval_f_checked 0 vec_x vec_u vec_out12 hexacopter_world1 =
          Inl (e, hexacopter_world1)) \<or>
    OCP_hexacopter_eval_f_checked 0 vec_x vec_u vec_out12 hexacopter_world1 =
      Inr (OCP_hexacopter_eval_f 0 0 12 30 hexacopter_world1))"
proof -
  let ?w1 = hexacopter_world1 and ?w2 = hexacopter_world2
  let ?call = "OCP_hexacopter_eval_f 0 0 12 30"
  note inst = evaluators_pure [where t = 0 and x = 0 and u = 12 and dx = 30
      and x' = 100 and u' = 112 and dx' = 130
      and vx = vec_x and vu = vec_u and vdx = vec_out12]
  have pure: "evaluator_pure ?call [(0, 12), (12, 6)] (30, 12)"
    and det: "evaluator_deterministic ?call [(0, 12), (12, 6)] (30, 12)
      (OCP_hexacopter_eval_f 0 100 112 130) [(100, 12), (112, 6)] (130, 12)"
    using inst by (simp_all add: hexacopter_dims)
  have sizes: "size_v vec_x = OCP_hexacopter_nx" "size_v vec_u = OCP_hexacopter_nu"
    "size_v vec_out12 = OCP_hexacopter_nx"
    by (simp_all add: example_vecs hexacopter_dims)
  with inst have "checked_as (OCP_hexacopter_eval_f_checked 0 vec_x vec_u vec_out12)
     (OCP_hexacopter_eval_f 0 (data vec_x) (data vec_u) (data vec_out12))"
    by blast
  then have "checked_as (OCP_hexacopter_eval_f_checked 0 vec_x vec_u vec_out12) ?call"
    by (simp add: example_vecs)
  then have chk: "(\<exists>e. OCP_hexacopter_eval_f_checked 0 vec_x vec_u vec_out12 ?w1 = Inl (e, ?w1)) \<or>
      OCP_hexacopter_eval_f_checked 0 vec_x vec_u vec_out12 ?w1 = Inr (?call ?w1)"
    unfolding checked_as_def by blast
  have io: "in_out [(0, 12), (12, 6)] (30, 12)" "in_out [(100, 12), (112, 6)] (130, 12)"
    by (simp_all add: in_out_def apart_def)
  have o: "ocp ?w1 = ocp ?w2"
    by (simp add: hexacopter_world1_def hexacopter_world2_def)
  have ins: "same_contents [(0, 12), (12, 6)] (mem ?w1) [(100, 12), (112, 6)] (mem ?w2)"
    by (simp add: same_contents_def array_def upt_dims hexacopter_world1_def
        hexacopter_world2_def zero_memory_def)
  have before: "array (mem ?w1) 30 12 \<noteq> array (mem ?w2) 130 12"
    by (simp add: array_def upt_dims hexacopter_world1_def hexacopter_world2_def
        zero_memory_def)
  from det io o ins have out: "array (mem (?call ?w1)) 30 12 =
      array (mem (OCP_hexacopter_eval_f 0 100 112 130 ?w2)) 130 12"
    unfolding evaluator_deterministic_def by simp
  from pure io(1) have fr: "ocp (?call ?w1) = ocp ?w1"
    "same_contents [(0, 12), (12, 6)] (mem (?call ?w1)) [(0, 12), (12, 6)] (mem ?w1)"
    "\<forall>a. a \<notin> cells 30 12 \<longrightarrow> mem (?call ?w1) a = mem ?w1 a"
    unfolding evaluator_pure_def by simp_all
  from fr(3) have "mem (?call ?w1) 50 = mem ?w1 50"
    by (simp add: cells_def)
  with io o ins before out fr(1,2) sizes chk show ?thesis
    by simp
qed


end
